theory Spec2Isabelle
  imports Complex_Main "HOL-Library.Word" "HOL-Library.Log_Nat"
begin

section \<open>Data model (UplanGeneratorComplete.h)\<close>

text \<open>
  The trajectory-to-volume pipeline of \<^verbatim>\<open>UplanGeneratorComplete.cpp\<close>.
  A C++ \<^verbatim>\<open>double\<close> is modelled by the real number it denotes; there is no NaN and
  no infinity. The arithmetic of a segment whose result is compared, truncated or stored
  in a volume (vertical distance, classification, buffer sizes, altitude band, time
  window) rounds every result to the nearest double. The midpoint and the bearings of
  the polygon, which are only handed to the geodesy primitive, are written as exact
  expressions. The theorems hold for all real inputs, the doubles among them. A
  \<^verbatim>\<open>size_t\<close> index is a natural number (every index the loops reach is below the
  length of a vector), and the \<^verbatim>\<open>int\<close> stride is an integer.
\<close>

record WaypointComplete =
  lat :: real
  lon :: real
  h :: real
  time :: real

record UplanConfigComplete =
  TSE_H :: real
  TSE_V :: real
  Alpha_H :: real
  Alpha_V :: real
  tbuf :: real

text \<open>The default member initialisers of \<^verbatim>\<open>UplanConfigComplete\<close>.\<close>

definition default_config :: UplanConfigComplete where
  "default_config = \<lparr>TSE_H = 15, TSE_V = 10, Alpha_H = 7, Alpha_V = 1, tbuf = 5\<rparr>"

section \<open>Double arithmetic\<close>

text \<open>
  Every finite \<^verbatim>\<open>double\<close> is a real number, and an arithmetic operation on doubles
  returns the double nearest to the exact result, a tie going to the even significand
  (IEEE 754 binary64, round to nearest even). \<open>to_double\<close> is that rounding:
  \<open>double_exponent x\<close> is the binary exponent of \<open>x\<close>, never below \<open>- 1022\<close> (under
  \<open>2 powi - 1022\<close> the doubles are evenly spaced), the doubles around \<open>x\<close> are the multiples
  of \<open>2 powi (double_exponent x - 52)\<close>, and \<open>x\<close> goes to the nearest of them. Results
  beyond the largest double (overflow to infinity) are outside the model.
\<close>

definition round_half_even :: "real \<Rightarrow> int" where
  "round_half_even t =
     (let f = \<lfloor>t\<rfloor>; r = t - of_int f
      in if r < 1 / 2 then f else if 1 / 2 < r then f + 1 else if even f then f else f + 1)"

definition double_exponent :: "real \<Rightarrow> int" where
  "double_exponent x =
     (if x = 0 then - 1022
      else max (- 1022)
             (if 1 \<le> \<bar>x\<bar> then bitlen \<lfloor>\<bar>x\<bar>\<rfloor> - 1 else - bitlen (\<lceil>1 / \<bar>x\<bar>\<rceil> - 1)))"

definition to_double :: "real \<Rightarrow> real" where
  "to_double x =
     (let ulp = 2 powi (double_exponent x - 52)
      in of_int (round_half_even (x / ulp)) * ulp)"

section \<open>Trajectory reducer\<close>

text \<open>
  The loop of \<^verbatim>\<open>reduceWaypoints\<close>:
  \<^verbatim>\<open>for (size_t i = 1; i < waypoints.size(); i += compression_factor) reduced.push_back(waypoints[i]);\<close>
  The stride reaches the loop clamped to at least 1 (the line before it), which is what
  makes the loop end; the guard \<open>1 \<le> compression_factor\<close> records that.
\<close>

function stride_loop :: "'a list \<Rightarrow> int \<Rightarrow> nat \<Rightarrow> 'a list \<Rightarrow> 'a list" where
  "stride_loop waypoints compression_factor i reduced =
     (if 1 \<le> compression_factor \<and> i < length waypoints
      then stride_loop waypoints compression_factor (i + nat compression_factor)
             (reduced @ [waypoints ! i])
      else reduced)"
  by pat_completeness auto
termination
  by (relation "measure (\<lambda>(waypoints, compression_factor, i, reduced). length waypoints - i)") auto

declare stride_loop.simps [simp del]

definition reduceWaypoints :: "WaypointComplete list \<Rightarrow> int \<Rightarrow> WaypointComplete list" where
  "reduceWaypoints waypoints compression_factor =
     (if length waypoints \<le> 2 then waypoints
      else
        let cf = (if compression_factor < 1 then 1 else compression_factor);
            reduced = stride_loop waypoints cf 1 []
        in if reduced \<noteq> [] \<and> time (last reduced) \<noteq> time (last waypoints)
           then reduced @ [last waypoints]
           else reduced)"

section \<open>Geodesy primitive (GeographicLib, external)\<close>

text \<open>
  \<^verbatim>\<open>Geodesic::WGS84()\<close> is an external library; the generator only calls its two
  solvers, which are taken as parameters:
  \<^verbatim>\<open>Inverse(lat1, lon1, lat2, lon2, s12, azi1, azi2)\<close> gives the distance and the two
  bearings, \<^verbatim>\<open>Direct(lat1, lon1, azi1, s12, lat2, lon2)\<close> gives the destination point.
\<close>

record Geodesic =
  Inverse :: "real \<Rightarrow> real \<Rightarrow> real \<Rightarrow> real \<Rightarrow> real \<times> real \<times> real"
  Direct :: "real \<Rightarrow> real \<Rightarrow> real \<Rightarrow> real \<Rightarrow> real \<times> real"

definition calculateDistance :: "Geodesic \<Rightarrow> real \<Rightarrow> real \<Rightarrow> real \<Rightarrow> real \<Rightarrow> real" where
  "calculateDistance geod lat1 lon1 lat2 lon2 =
     (case Inverse geod lat1 lon1 lat2 lon2 of (s12, azi1, azi2) \<Rightarrow> s12)"

definition calculateAzimuth :: "Geodesic \<Rightarrow> real \<Rightarrow> real \<Rightarrow> real \<Rightarrow> real \<Rightarrow> real" where
  "calculateAzimuth geod lat1 lon1 lat2 lon2 =
     (case Inverse geod lat1 lon1 lat2 lon2 of (s12, azi1, azi2) \<Rightarrow> azi1)"

text \<open>
  A deterministic stand-in for the primitive, to run the model on concrete trajectories:
  a taxicab distance of 111195 metres per degree with bearing 0, and a direct solve for
  the four axis bearings that the buffer builder reaches from bearing 0 (any other
  bearing leaves the point where it is). Like WGS84 it gives distance 0 between
  coincident points. Every general theorem below is stated for an arbitrary primitive.
\<close>

definition planar_geodesic :: Geodesic where
  "planar_geodesic =
     \<lparr>Inverse = (\<lambda>lat1 lon1 lat2 lon2. (111195 * (\<bar>lat2 - lat1\<bar> + \<bar>lon2 - lon1\<bar>), 0, 0)),
      Direct = (\<lambda>lat1 lon1 azi1 s12.
        if azi1 = 0 then (lat1 + s12 / 111195, lon1)
        else if azi1 = 180 then (lat1 - s12 / 111195, lon1)
        else if azi1 = 90 then (lat1, lon1 + s12 / 111195)
        else if azi1 = - 90 then (lat1, lon1 - s12 / 111195)
        else (lat1, lon1))\<rparr>"

section \<open>Oriented buffer builder\<close>

text \<open>\<^verbatim>\<open>Point(lon, lat)\<close>, read back with \<^verbatim>\<open>getLon()\<close> and \<^verbatim>\<open>getLat()\<close>.\<close>

record Point =
  getLon :: real
  getLat :: real

definition generateOrientedRectangleCorners ::
  "Geodesic \<Rightarrow> real \<Rightarrow> real \<Rightarrow> real \<Rightarrow> real \<Rightarrow> real \<Rightarrow> Point list" where
  "generateOrientedRectangleCorners geod mid_lat mid_lon azimuth along_track cross_track =
     (let perpendicular_left = azimuth - 90;
          perpendicular_right = azimuth + 90;
          (front_lat, front_lon) = Direct geod mid_lat mid_lon azimuth along_track;
          (back_lat, back_lon) = Direct geod mid_lat mid_lon (azimuth + 180) along_track;
          (corner1_lat, corner1_lon) = Direct geod front_lat front_lon perpendicular_left cross_track;
          (corner2_lat, corner2_lon) = Direct geod front_lat front_lon perpendicular_right cross_track;
          (corner3_lat, corner3_lon) = Direct geod back_lat back_lon perpendicular_right cross_track;
          (corner4_lat, corner4_lon) = Direct geod back_lat back_lon perpendicular_left cross_track
      in [\<lparr>getLon = corner1_lon, getLat = corner1_lat\<rparr>,
          \<lparr>getLon = corner2_lon, getLat = corner2_lat\<rparr>,
          \<lparr>getLon = corner3_lon, getLat = corner3_lat\<rparr>,
          \<lparr>getLon = corner4_lon, getLat = corner4_lat\<rparr>,
          \<lparr>getLon = corner1_lon, getLat = corner1_lat\<rparr>])"

section \<open>Volume assembler\<close>

record Geometry =
  geometry_type :: string
  coordinates :: "Point list list"
  bbox :: "real list"

record Altitude =
  alt_value :: real
  uom :: string
  reference :: string

text \<open>
  The arguments of the \<^verbatim>\<open>Volume\<close> constructor. A time point is kept as the Unix
  seconds handed to \<^verbatim>\<open>Functions::from_unix_timestamp\<close>; the ordinal is a C++
  \<^verbatim>\<open>int\<close>, kept as its value.
\<close>

record Volume =
  geometry :: Geometry
  timeBegin :: int
  timeEnd :: int
  minAltitude :: Altitude
  maxAltitude :: Altitude
  ordinal :: int

text \<open>
  \<^verbatim>\<open>static_cast<long long>(double)\<close> discards the fractional part (the conversion is
  defined for values in the range of \<^verbatim>\<open>long long\<close>);
  \<^verbatim>\<open>static_cast<int>(size_t)\<close> keeps the low 32 bits, read as a signed number.
\<close>

definition static_cast_long_long :: "real \<Rightarrow> int" where
  "static_cast_long_long x = (if 0 \<le> x then \<lfloor>x\<rfloor> else \<lceil>x\<rceil>)"

definition static_cast_int :: "nat \<Rightarrow> int" where
  "static_cast_int i = sint (word_of_nat i :: 32 word)"

text \<open>\<^verbatim>\<open>std::numeric_limits<double>::max()\<close>; \<^verbatim>\<open>lowest()\<close> is its negation.\<close>

definition DBL_MAX :: real where
  "DBL_MAX = (2 ^ 53 - 1) * 2 ^ 971"

text \<open>
  The bounding box loop runs over \<^verbatim>\<open>corners[0 .. corners.size() - 2]\<close> and keeps
  \<open>(minLon, maxLon, minLat, maxLat)\<close>.
\<close>

definition bbox_step :: "real \<times> real \<times> real \<times> real \<Rightarrow> Point \<Rightarrow> real \<times> real \<times> real \<times> real" where
  "bbox_step acc corner =
     (case acc of (minLon, maxLon, minLat, maxLat) \<Rightarrow>
        (min minLon (getLon corner), max maxLon (getLon corner),
         min minLat (getLat corner), max maxLat (getLat corner)))"

definition bounding_box :: "Point list \<Rightarrow> real list" where
  "bounding_box corners =
     (case foldl bbox_step (DBL_MAX, - DBL_MAX, DBL_MAX, - DBL_MAX)
             (take (length corners - 1) corners)
      of (minLon, maxLon, minLat, maxLat) \<Rightarrow> [minLon, minLat, maxLon, maxLat])"

text \<open>The two classification tests of a segment, and the three sizing rows
  \<open>(along_track, cross_track, vertical_buffer)\<close> in the order the code tries them. Each
  product, quotient and sum is a double operation.\<close>

definition is_horizontal :: "UplanConfigComplete \<Rightarrow> real \<Rightarrow> real \<Rightarrow> bool" where
  "is_horizontal config horizontal_distance vertical_distance =
     (horizontal_distance > to_double (Alpha_H config * vertical_distance))"

definition is_vertical :: "UplanConfigComplete \<Rightarrow> real \<Rightarrow> real \<Rightarrow> bool" where
  "is_vertical config horizontal_distance vertical_distance =
     (vertical_distance > to_double (Alpha_V config * horizontal_distance))"

definition segment_buffers :: "UplanConfigComplete \<Rightarrow> real \<Rightarrow> real \<Rightarrow> real \<times> real \<times> real" where
  "segment_buffers config distance vertical_distance =
     (if is_horizontal config distance vertical_distance
      then (to_double (to_double (distance / 2) + TSE_H config), TSE_H config, TSE_V config)
      else if is_vertical config distance vertical_distance
      then (TSE_H config, TSE_H config,
            to_double (to_double (vertical_distance / 2) + TSE_V config))
      else (to_double (to_double (distance / 2) + TSE_H config), TSE_H config,
            to_double (to_double (vertical_distance / 2) + TSE_V config)))"

definition minimum_ground_clearance :: real where
  "minimum_ground_clearance = 10"

text \<open>
  One pass of the loop of \<^verbatim>\<open>generateVolumes\<close>: the volume of segment \<open>i\<close>. The
  vertical distance, the altitudes and the times are computed in double arithmetic,
  operation by operation as the code writes them. The midpoint of the polygon is handed
  to the geodesy primitive as the expression the code writes.
\<close>

definition segment_volume ::
  "UplanConfigComplete \<Rightarrow> Geodesic \<Rightarrow> real \<Rightarrow> WaypointComplete \<Rightarrow> WaypointComplete \<Rightarrow> nat \<Rightarrow> Volume" where
  "segment_volume config geod start_timestamp wp1 wp2 i =
     (let distance = calculateDistance geod (lat wp1) (lon wp1) (lat wp2) (lon wp2);
          azimuth = calculateAzimuth geod (lat wp1) (lon wp1) (lat wp2) (lon wp2);
          mid_lat = (lat wp1 + lat wp2) / 2;
          mid_lon = (lon wp1 + lon wp2) / 2;
          min_alt = min (h wp1) (h wp2);
          max_alt = max (h wp1) (h wp2);
          mid_alt = to_double (to_double (min_alt + max_alt) / 2);
          vertical_distance = \<bar>to_double (h wp2 - h wp1)\<bar>;
          (along_track, cross_track, vertical_buffer) =
             segment_buffers config distance vertical_distance;
          corners = generateOrientedRectangleCorners geod mid_lat mid_lon azimuth
                      along_track cross_track;
          minAltValue = (if to_double (mid_alt - vertical_buffer) < minimum_ground_clearance
                         then minimum_ground_clearance
                         else to_double (mid_alt - vertical_buffer));
          segment_start_time = to_double (start_timestamp + time wp1);
          segment_end_time = to_double (start_timestamp + time wp2)
      in \<lparr>geometry = \<lparr>geometry_type = ''Polygon'', coordinates = [corners],
                        bbox = bounding_box corners\<rparr>,
          timeBegin = static_cast_long_long (to_double (segment_start_time - tbuf config)),
          timeEnd = static_cast_long_long (to_double (segment_end_time + tbuf config)),
          minAltitude = \<lparr>alt_value = minAltValue, uom = ''M'', reference = ''AGL''\<rparr>,
          maxAltitude = \<lparr>alt_value = to_double (mid_alt + vertical_buffer), uom = ''M'',
                           reference = ''AGL''\<rparr>,
          ordinal = static_cast_int i\<rparr>)"

function generateVolumes_loop ::
  "UplanConfigComplete \<Rightarrow> Geodesic \<Rightarrow> WaypointComplete list \<Rightarrow> real \<Rightarrow> nat \<Rightarrow> Volume list
   \<Rightarrow> Volume list" where
  "generateVolumes_loop config geod wp_reduced start_timestamp i volumes =
     (if i < length wp_reduced - 1
      then generateVolumes_loop config geod wp_reduced start_timestamp (i + 1)
             (volumes @ [segment_volume config geod start_timestamp
                           (wp_reduced ! i) (wp_reduced ! (i + 1)) i])
      else volumes)"
  by pat_completeness auto
termination
  by (relation "measure (\<lambda>(config, geod, wp_reduced, start_timestamp, i, volumes).
        length wp_reduced - i)") auto

declare generateVolumes_loop.simps [simp del]

text \<open>
  On an empty vector \<^verbatim>\<open>wp_reduced.size() - 1\<close> wraps to the largest
  \<^verbatim>\<open>size_t\<close>, and \<^verbatim>\<open>volumes.reserve\<close> throws \<^verbatim>\<open>std::length_error\<close>
  before the loop is reached.
\<close>

datatype error = Length_error

definition generateVolumes ::
  "UplanConfigComplete \<Rightarrow> Geodesic \<Rightarrow> WaypointComplete list \<Rightarrow> real \<Rightarrow> error + Volume list" where
  "generateVolumes config geod wp_reduced start_timestamp =
     (if wp_reduced = [] then Inl Length_error
      else Inr (generateVolumes_loop config geod wp_reduced start_timestamp 0 []))"

section \<open>Document envelope\<close>

record DataIdentifier =
  sac :: string
  sic :: string

record ContactDetails =
  firstName :: string
  lastName :: string
  phones :: "string list"
  emails :: "string list"

record FlightDetails =
  flight_mode :: string
  flight_category :: string
  specialOperation :: string
  privateFlight :: bool

text \<open>The \<^verbatim>\<open>flightCharacteristics\<close> and \<^verbatim>\<open>generalCharacteristics\<close> objects of the
  aircraft are kept flat in one record.\<close>

record UAS =
  registrationNumber :: string
  serialNumber :: string
  uasMTOM :: real
  uasMaxSpeed :: real
  Connectivity :: string
  idTechnology :: string
  maxFlightTime :: int
  brand :: string
  uas_model :: string
  typeCertificate :: string
  uasType :: string
  uasClass :: string
  uasDimension :: string

record Location =
  location_type :: string
  location_coordinates :: "real list"
  location_reference :: string
  location_altitude :: real

record Uplan =
  idplan :: int
  nameplan :: string
  dataOwnerIdentifier :: DataIdentifier
  dataSourceIdentifier :: DataIdentifier
  contactDetails :: ContactDetails
  flightDetails :: FlightDetails
  uas :: UAS
  takeoffLocation :: Location
  landingLocation :: Location
  gcsLocation :: Location
  operationVolumes :: "Volume list"
  operatorId :: string
  uplan_state :: string
  creationTime :: string
  updateTime :: string

definition generateDefaultDataIdentifier :: "string \<Rightarrow> string \<Rightarrow> DataIdentifier" where
  "generateDefaultDataIdentifier s1 s2 = \<lparr>sac = s1, sic = s2\<rparr>"

definition generateDefaultContactDetails :: ContactDetails where
  "generateDefaultContactDetails =
     \<lparr>firstName = ''TBD'', lastName = ''TBD'', phones = [''TBD''],
      emails = [''tbd@example.com'']\<rparr>"

text \<open>\<^verbatim>\<open>s.find(pat) != std::string::npos\<close>: \<open>pat\<close> occurs in \<open>s\<close>.\<close>

primrec string_contains :: "string \<Rightarrow> string \<Rightarrow> bool" where
  "string_contains [] pat = (pat = [])"
| "string_contains (c # cs) pat = (take (length pat) (c # cs) = pat \<or> string_contains cs pat)"

definition generateDefaultFlightDetails :: "string \<Rightarrow> FlightDetails" where
  "generateDefaultFlightDetails cat =
     \<lparr>flight_mode = (if string_contains cat ''SAIL'' then ''BVLOS'' else ''VLOS''),
      flight_category = cat, specialOperation = [], privateFlight = False\<rparr>"

definition generateDefaultUAS :: "string \<Rightarrow> real \<Rightarrow> real \<Rightarrow> UAS" where
  "generateDefaultUAS utype mtom vMax =
     \<lparr>registrationNumber = ''TBD'', serialNumber = ''TBD'', uasMTOM = mtom,
      uasMaxSpeed = vMax, Connectivity = ''LTE'', idTechnology = ''NRID'',
      maxFlightTime = 0, brand = ''TBD'', uas_model = ''TBD'', typeCertificate = ''TBD'',
      uasType = utype, uasClass = ''NONE'', uasDimension = ''LT_1''\<rparr>"

definition generateDefaultLocation :: "real \<Rightarrow> real \<Rightarrow> real \<Rightarrow> Location" where
  "generateDefaultLocation la lo al =
     \<lparr>location_type = ''Point'', location_coordinates = [lo, la],
      location_reference = ''AGL'', location_altitude = al\<rparr>"

definition generateTBDLocation :: Location where
  "generateTBDLocation =
     \<lparr>location_type = ''Point'', location_coordinates = [0, 0],
      location_reference = ''AGL'', location_altitude = 0\<rparr>"

text \<open>
  \<^verbatim>\<open>generateCompleteUplan\<close>. Reading and parsing the trajectory file is the function
  \<open>loadWaypointsFromCSV\<close> from paths to waypoint lists (the file system and the CSV
  reader), and the clock is the string \<open>now_iso_string\<close>; both are inputs. The empty JSON
  value returned on the two early exits is \<open>None\<close>. The volumes are stored as they are
  (their \<^verbatim>\<open>toJson\<close> is outside these sources).
\<close>

definition generateCompleteUplan ::
  "UplanConfigComplete \<Rightarrow> Geodesic \<Rightarrow> (string \<Rightarrow> WaypointComplete list) \<Rightarrow> string
   \<Rightarrow> int \<Rightarrow> string \<Rightarrow> string \<Rightarrow> real \<Rightarrow> string \<Rightarrow> string \<Rightarrow> real \<Rightarrow> real
   \<Rightarrow> error + Uplan option" where
  "generateCompleteUplan config geod loadWaypointsFromCSV now_iso_string
     uplan_id uplan_name trajectory_csv_path start_timestamp cat utype mtom vMax =
     (let waypoints = loadWaypointsFromCSV trajectory_csv_path in
      if waypoints = [] then Inr None
      else
        let wp_reduced = reduceWaypoints waypoints 20 in
        if length wp_reduced < 2 then Inr None
        else
          case generateVolumes config geod wp_reduced start_timestamp of
            Inl e \<Rightarrow> Inl e
          | Inr volumes \<Rightarrow>
              let takeoff = hd waypoints;
                  landing = last waypoints;
                  iso_time = now_iso_string @ ''Z''
              in Inr (Some
                   \<lparr>idplan = uplan_id,
                    nameplan = uplan_name,
                    dataOwnerIdentifier = generateDefaultDataIdentifier ''TBD'' ''TBD'',
                    dataSourceIdentifier = generateDefaultDataIdentifier ''TBD'' ''TBD'',
                    contactDetails = generateDefaultContactDetails,
                    flightDetails = generateDefaultFlightDetails cat,
                    uas = generateDefaultUAS utype mtom vMax,
                    takeoffLocation =
                      generateDefaultLocation (lat takeoff) (lon takeoff) (h takeoff),
                    landingLocation =
                      generateDefaultLocation (lat landing) (lon landing) (h landing),
                    gcsLocation = generateTBDLocation,
                    operationVolumes = volumes,
                    operatorId = ''TBD'',
                    uplan_state = ''SENT'',
                    creationTime = iso_time,
                    updateTime = iso_time\<rparr>))"

section \<open>Concrete trajectories\<close>

text \<open>
  The three waypoints of the specification's worked scenario (the second and third at the
  same position and height), and a fourth one to make a longer trajectory.
\<close>

definition wp_a :: WaypointComplete where
  "wp_a = \<lparr>lat = 40, lon = -3, h = 0, time = 0\<rparr>"

definition wp_b :: WaypointComplete where
  "wp_b = \<lparr>lat = 40.0001, lon = -3, h = 50, time = 10\<rparr>"

definition wp_c :: WaypointComplete where
  "wp_c = \<lparr>lat = 40.0001, lon = -3, h = 50, time = 40\<rparr>"

definition wp_d :: WaypointComplete where
  "wp_d = \<lparr>lat = 40.0002, lon = -3, h = 0, time = 60\<rparr>"

text \<open>
  A waypoint on the ground next to \<open>wp_a\<close>, a configuration with a vertical margin of
  5 m, a configuration whose horizontal threshold is 0.5, and a file system that holds one
  trajectory of four waypoints.
\<close>

definition wp_ground :: WaypointComplete where
  "wp_ground = \<lparr>lat = 40.0001, lon = -3, h = 0, time = 10\<rparr>"

definition low_margin_config :: UplanConfigComplete where
  "low_margin_config = \<lparr>TSE_H = 15, TSE_V = 5, Alpha_H = 7, Alpha_V = 1, tbuf = 5\<rparr>"

definition steep_config :: UplanConfigComplete where
  "steep_config = \<lparr>TSE_H = 15, TSE_V = 10, Alpha_H = 0.5, Alpha_V = 1, tbuf = 5\<rparr>"

definition one_file :: "string \<Rightarrow> WaypointComplete list" where
  "one_file path = (if path = ''traj.csv'' then [wp_a, wp_b, wp_c, wp_d] else [])"

text \<open>
  Three waypoints at 50 m whose times are not whole seconds: half a second, ten and a
  half seconds, and \<open>5 - 2 powi - 23\<close> seconds.
\<close>

definition wp_e :: WaypointComplete where
  "wp_e = \<lparr>lat = 40, lon = -3, h = 50, time = 0.5\<rparr>"

definition wp_f :: WaypointComplete where
  "wp_f = \<lparr>lat = 40.0001, lon = -3, h = 50, time = 10.5\<rparr>"

definition wp_g :: WaypointComplete where
  "wp_g = \<lparr>lat = 40, lon = -3, h = 50, time = 41943039 / 8388608\<rparr>"

section \<open>Properties of double rounding\<close>

lemma round_half_even_of_int: "round_half_even (of_int n) = n"
  by (simp add: round_half_even_def)

lemma round_half_even_cases:
  "round_half_even t = \<lfloor>t\<rfloor> \<or> round_half_even t = \<lfloor>t\<rfloor> + 1"
  by (simp add: round_half_even_def Let_def)

lemma round_half_even_mono:
  assumes "s \<le> t"
  shows "round_half_even s \<le> round_half_even t"
proof (cases "\<lfloor>s\<rfloor> = \<lfloor>t\<rfloor>")
  case True
  with assms show ?thesis
    by (auto simp: round_half_even_def Let_def)
next
  case False
  with assms have "\<lfloor>s\<rfloor> + 1 \<le> \<lfloor>t\<rfloor>"
    using floor_mono [OF assms] by linarith
  moreover have "round_half_even s \<le> \<lfloor>s\<rfloor> + 1"
    using round_half_even_cases [of s] by auto
  moreover have "\<lfloor>t\<rfloor> \<le> round_half_even t"
    using round_half_even_cases [of t] by auto
  ultimately show ?thesis by linarith
qed

lemma round_half_even_minus: "round_half_even (- t) = - round_half_even t"
proof (cases "t = of_int \<lfloor>t\<rfloor>")
  case True
  then obtain n where t: "t = of_int n" ..
  have "round_half_even (- of_int n) = round_half_even (of_int (- n))" by simp
  then show ?thesis
    unfolding t by (simp only: round_half_even_of_int)
next
  case False
  then have lt: "of_int \<lfloor>t\<rfloor> < t" using of_int_floor_le [of t] by linarith
  have "t < of_int \<lfloor>t\<rfloor> + 1" by linarith
  have fl: "\<lfloor>- t\<rfloor> = - \<lfloor>t\<rfloor> - 1"
  proof (rule floor_unique)
    have c: "(of_int (- \<lfloor>t\<rfloor> - 1) :: real) = - of_int \<lfloor>t\<rfloor> - 1" by simp
    show "of_int (- \<lfloor>t\<rfloor> - 1) \<le> - t"
      unfolding c using \<open>t < of_int \<lfloor>t\<rfloor> + 1\<close> by linarith
    show "- t < of_int (- \<lfloor>t\<rfloor> - 1) + 1"
      unfolding c using lt by linarith
  qed
  show ?thesis
    unfolding round_half_even_def fl Let_def
    by (auto simp: algebra_simps)
qed

lemma double_exponent_minus: "double_exponent (- x) = double_exponent x"
  by (simp add: double_exponent_def)

lemma to_double_minus: "to_double (- x) = - to_double x"
  by (simp add: to_double_def double_exponent_minus round_half_even_minus Let_def)

lemma to_double_zero: "to_double 0 = 0"
  by (simp add: to_double_def round_half_even_def)

lemma double_exponent_ge: "- 1022 \<le> double_exponent x"
  by (simp add: double_exponent_def)

lemma double_exponent_bounds:
  assumes "x \<noteq> 0"
  shows "\<bar>x\<bar> < 2 powi (double_exponent x + 1)
         \<and> (double_exponent x = - 1022 \<or> 2 powi (double_exponent x) \<le> \<bar>x\<bar>)"
proof (cases "1 \<le> \<bar>x\<bar>")
  case True
  define n where "n = \<lfloor>\<bar>x\<bar>\<rfloor>"
  have n1: "1 \<le> n" using True by (simp add: n_def le_floor_iff)
  then have n0: "0 < n" by simp
  have b1: "1 \<le> bitlen n" using n0 by (simp add: bitlen_alt_def)
  have e: "double_exponent x = bitlen n - 1"
    using assms True b1 by (simp add: double_exponent_def n_def)
  from bitlen_bounds [OF n0]
  have lo: "(2::int) ^ nat (bitlen n - 1) \<le> n" and hi: "n < (2::int) ^ nat (bitlen n)" by simp_all
  have "(2::real) powi (bitlen n - 1) = 2 ^ nat (bitlen n - 1)"
    using b1 by (simp add: power_int_nonneg_exp)
  also have "\<dots> = of_int (2 ^ nat (bitlen n - 1))" by simp
  also have "\<dots> \<le> of_int n" using lo by (simp only: of_int_le_iff)
  also have "\<dots> \<le> \<bar>x\<bar>" unfolding n_def by (rule of_int_floor_le)
  finally have L: "2 powi (bitlen n - 1) \<le> \<bar>x\<bar>" .
  have "n + 1 \<le> 2 ^ nat (bitlen n)" using hi by simp
  then have "(of_int (n + 1) :: real) \<le> of_int (2 ^ nat (bitlen n))"
    by (simp only: of_int_le_iff)
  moreover have "\<bar>x\<bar> < of_int (n + 1)" by (simp add: n_def)
  moreover have "(of_int (2 ^ nat (bitlen n)) :: real) = 2 ^ nat (bitlen n)" by simp
  ultimately have "\<bar>x\<bar> < 2 ^ nat (bitlen n)" by linarith
  also have "(2::real) ^ nat (bitlen n) = 2 powi (bitlen n)"
    using b1 by (simp add: power_int_nonneg_exp)
  finally have U: "\<bar>x\<bar> < 2 powi (bitlen n)" .
  from L U show ?thesis by (simp add: e)
next
  case False
  then have a1: "\<bar>x\<bar> < 1" by simp
  have a0: "0 < \<bar>x\<bar>" using assms by simp
  define n where "n = \<lceil>1 / \<bar>x\<bar>\<rceil>"
  define k where "k = bitlen (n - 1)"
  have inv: "1 < 1 / \<bar>x\<bar>" using a0 a1 by simp
  have n2: "2 \<le> n" using inv by (simp add: n_def)
  then have m0: "0 < n - 1" by simp
  have k1: "1 \<le> k" using m0 by (simp add: k_def bitlen_alt_def)
  from bitlen_bounds [OF m0]
  have lo: "(2::int) ^ nat (k - 1) \<le> n - 1" and hi: "n - 1 < (2::int) ^ nat k"
    by (simp_all add: k_def)
  have e0: "(if 1 \<le> \<bar>x\<bar> then bitlen \<lfloor>\<bar>x\<bar>\<rfloor> - 1 else - bitlen (\<lceil>1 / \<bar>x\<bar>\<rceil> - 1)) = - k"
    using False by (simp add: k_def n_def)
  have e: "double_exponent x = max (- 1022) (- k)"
    using assms by (simp add: double_exponent_def e0 del: of_int_diff)
  have "n \<le> 2 ^ nat k" using hi by simp
  then have "(of_int n :: real) \<le> of_int (2 ^ nat k)" by (simp only: of_int_le_iff)
  moreover have "1 / \<bar>x\<bar> \<le> of_int n" by (simp add: n_def)
  moreover have "(of_int (2 ^ nat k) :: real) = 2 ^ nat k" by simp
  ultimately have "1 / \<bar>x\<bar> \<le> 2 ^ nat k" by linarith
  then have "1 \<le> 2 ^ nat k * \<bar>x\<bar>" using a0 by (simp add: field_simps)
  then have "1 / 2 ^ nat k \<le> \<bar>x\<bar>" by (simp add: field_simps)
  moreover have "(2::real) powi (- k) = 1 / 2 ^ nat k"
    using k1 by (simp add: power_int_minus_divide power_int_nonneg_exp)
  ultimately have L: "2 powi (- k) \<le> \<bar>x\<bar>" by simp
  have "(of_int (2 ^ nat (k - 1)) :: real) \<le> of_int (n - 1)" using lo by (simp only: of_int_le_iff)
  moreover have "of_int (n - 1) < 1 / \<bar>x\<bar>"
  proof -
    have "of_int \<lceil>1 / \<bar>x\<bar>\<rceil> - 1 < 1 / \<bar>x\<bar>"
      using ceiling_correct [of "1 / \<bar>x\<bar>"] by linarith
    then show ?thesis by (simp add: n_def)
  qed
  moreover have "(of_int (2 ^ nat (k - 1)) :: real) = 2 ^ nat (k - 1)" by simp
  ultimately have "2 ^ nat (k - 1) < 1 / \<bar>x\<bar>" by linarith
  then have "2 ^ nat (k - 1) * \<bar>x\<bar> < 1" using a0 by (simp add: field_simps)
  then have "\<bar>x\<bar> < 1 / 2 ^ nat (k - 1)" by (simp add: field_simps)
  moreover have "(2::real) powi (- k + 1) = 1 / 2 ^ nat (k - 1)"
  proof -
    have "(2::real) powi (- k + 1) = 2 powi (- (k - 1))" by simp
    also have "\<dots> = 1 / 2 powi (k - 1)" by (rule power_int_minus_divide)
    also have "\<dots> = 1 / 2 ^ nat (k - 1)" using k1 by (simp add: power_int_nonneg_exp)
    finally show ?thesis .
  qed
  ultimately have U: "\<bar>x\<bar> < 2 powi (- k + 1)" by simp
  show ?thesis
  proof (cases "- 1022 \<le> - k")
    case True
    then have "double_exponent x = - k" using e by simp
    with L U show ?thesis by simp
  next
    case False
    then have ee: "double_exponent x = - 1022" using e by simp
    have "(2::real) powi (- k + 1) \<le> 2 powi (- 1022 + 1)"
      using False by (intro power_int_increasing) simp_all
    with U have "\<bar>x\<bar> < 2 powi (- 1022 + 1)" by linarith
    then show ?thesis by (simp add: ee)
  qed
qed

lemma double_exponent_unique:
  assumes "- 1022 \<le> k" and "\<bar>x\<bar> < 2 powi (k + 1)" and "k = - 1022 \<or> 2 powi k \<le> \<bar>x\<bar>"
  shows "double_exponent x = k"
proof (cases "x = 0")
  case True
  have "0 < (2::real) powi k" by simp
  then have "\<not> (2::real) powi k \<le> 0" by linarith
  with True have "\<not> (2::real) powi k \<le> \<bar>x\<bar>" by simp
  with assms(3) True show ?thesis by (simp add: double_exponent_def)
next
  case False
  note b = double_exponent_bounds [OF False]
  let ?e = "double_exponent x"
  have "\<not> ?e < k"
  proof
    assume lt: "?e < k"
    then have "k \<noteq> - 1022" using double_exponent_ge [of x] by simp
    with assms(3) have "2 powi k \<le> \<bar>x\<bar>" by simp
    moreover have "(2::real) powi (?e + 1) \<le> 2 powi k"
      using lt by (intro power_int_increasing) simp_all
    ultimately show False using b by linarith
  qed
  moreover have "\<not> k < ?e"
  proof
    assume lt: "k < ?e"
    then have "?e \<noteq> - 1022" using assms(1) by simp
    with b have "2 powi ?e \<le> \<bar>x\<bar>" by simp
    moreover have "(2::real) powi (k + 1) \<le> 2 powi ?e"
      using lt by (intro power_int_increasing) simp_all
    ultimately show False using assms(2) by linarith
  qed
  ultimately show ?thesis by simp
qed


lemma ulp_split_up: "(2::real) powi (e + 1) = 2 ^ 53 * 2 powi (e - 52)"
proof -
  have eq: "53 + (e - 52) = e + 1" by simp
  have "(2::real) powi (53 + (e - 52)) = 2 powi 53 * 2 powi (e - 52)"
    by (rule power_int_add) simp
  then have "(2::real) powi (e + 1) = 2 powi 53 * 2 powi (e - 52)"
    by (simp only: eq)
  then show ?thesis by simp
qed

lemma ulp_split_lo: "(2::real) powi e = 2 ^ 52 * 2 powi (e - 52)"
proof -
  have eq: "52 + (e - 52) = e" by simp
  have "(2::real) powi (52 + (e - 52)) = 2 powi 52 * 2 powi (e - 52)"
    by (rule power_int_add) simp
  then have "(2::real) powi e = 2 powi 52 * 2 powi (e - 52)"
    by (simp only: eq)
  then show ?thesis by simp
qed

lemma to_double_nonneg:
  assumes "0 \<le> x"
  shows "0 \<le> to_double x"
proof -
  let ?u = "(2::real) powi (double_exponent x - 52)"
  have u: "0 < ?u" by simp
  have "0 \<le> x / ?u" using assms u by simp
  then have "round_half_even (of_int 0) \<le> round_half_even (x / ?u)"
    by (intro round_half_even_mono) simp
  then have "0 \<le> round_half_even (x / ?u)" by (simp only: round_half_even_of_int)
  then show ?thesis using u by (simp add: to_double_def Let_def)
qed

lemma to_double_upper:
  assumes "0 \<le> x"
  shows "to_double x \<le> 2 powi (double_exponent x + 1)"
proof (cases "x = 0")
  case True
  then show ?thesis by (simp add: to_double_zero)
next
  case False
  let ?e = "double_exponent x"
  let ?u = "(2::real) powi (?e - 52)"
  have u: "0 < ?u" by simp
  have "x < 2 powi (?e + 1)"
    using double_exponent_bounds [OF False] assms by simp
  then have "x < 2 ^ 53 * ?u" by (simp only: ulp_split_up)
  then have "x / ?u \<le> of_int (2 ^ 53)" using u by (simp add: field_simps)
  then have "round_half_even (x / ?u) \<le> round_half_even (of_int (2 ^ 53))"
    by (rule round_half_even_mono)
  then have "round_half_even (x / ?u) \<le> 2 ^ 53" by (simp only: round_half_even_of_int)
  then have "(of_int (round_half_even (x / ?u)) :: real) \<le> of_int (2 ^ 53)"
    by (simp only: of_int_le_iff)
  then have "of_int (round_half_even (x / ?u)) * ?u \<le> 2 ^ 53 * ?u"
    using u by simp
  then show ?thesis by (simp only: ulp_split_up to_double_def Let_def)
qed

lemma to_double_lower:
  assumes "2 powi (double_exponent x) \<le> x"
  shows "2 powi (double_exponent x) \<le> to_double x"
proof -
  let ?e = "double_exponent x"
  let ?u = "(2::real) powi (?e - 52)"
  have u: "0 < ?u" by simp
  have "2 ^ 52 * ?u \<le> x" using assms by (simp only: ulp_split_lo [symmetric])
  then have "of_int (2 ^ 52) \<le> x / ?u" using u by (simp add: field_simps)
  then have "round_half_even (of_int (2 ^ 52)) \<le> round_half_even (x / ?u)"
    by (rule round_half_even_mono)
  then have "2 ^ 52 \<le> round_half_even (x / ?u)" by (simp only: round_half_even_of_int)
  then have "(of_int (2 ^ 52) :: real) \<le> of_int (round_half_even (x / ?u))"
    by (simp only: of_int_le_iff)
  then have "2 ^ 52 * ?u \<le> of_int (round_half_even (x / ?u)) * ?u"
    using u by simp
  then show ?thesis by (simp only: ulp_split_lo [symmetric] to_double_def Let_def)
qed

lemma to_double_mono_nonneg:
  assumes "0 \<le> x" and "x \<le> y"
  shows "to_double x \<le> to_double y"
proof (cases "x = 0")
  case True
  then show ?thesis using to_double_nonneg [of y] assms by (simp add: to_double_zero)
next
  case False
  then have x0: "0 < x" using assms(1) by simp
  then have y0: "0 < y" using assms(2) by simp
  let ?ex = "double_exponent x" and ?ey = "double_exponent y"
  note bx = double_exponent_bounds [OF False]
  have yn: "y \<noteq> 0" using y0 by simp
  note bny = double_exponent_bounds [OF yn]
  have le: "?ex \<le> ?ey"
  proof (rule ccontr)
    assume "\<not> ?ex \<le> ?ey"
    then have lt: "?ey < ?ex" by simp
    then have "?ex \<noteq> - 1022" using double_exponent_ge [of y] by simp
    with bx have "2 powi ?ex \<le> x" using x0 by simp
    moreover have "y < 2 powi (?ey + 1)" using bny y0 by simp
    moreover have "(2::real) powi (?ey + 1) \<le> 2 powi ?ex"
      using lt by (intro power_int_increasing) simp_all
    ultimately show False using assms(2) by linarith
  qed
  show ?thesis
  proof (cases "?ex = ?ey")
    case True
    let ?u = "(2::real) powi (?ex - 52)"
    have u: "0 < ?u" by simp
    have "x / ?u \<le> y / ?u" using assms(2) u by (simp add: divide_right_mono)
    then have "round_half_even (x / ?u) \<le> round_half_even (y / ?u)"
      by (rule round_half_even_mono)
    then have "(of_int (round_half_even (x / ?u)) :: real) \<le> of_int (round_half_even (y / ?u))"
      by (simp only: of_int_le_iff)
    then have "of_int (round_half_even (x / ?u)) * ?u \<le> of_int (round_half_even (y / ?u)) * ?u"
      using u by simp
    then show ?thesis by (simp add: to_double_def Let_def True [symmetric])
  next
    case False
    with le have lt: "?ex < ?ey" by simp
    then have "?ey \<noteq> - 1022" using double_exponent_ge [of x] by simp
    with bny have "2 powi ?ey \<le> y" using y0 by simp
    then have "2 powi ?ey \<le> to_double y" by (rule to_double_lower)
    moreover have "to_double x \<le> 2 powi (?ex + 1)"
      using assms(1) by (rule to_double_upper)
    moreover have "(2::real) powi (?ex + 1) \<le> 2 powi ?ey"
      using lt by (intro power_int_increasing) simp_all
    ultimately show ?thesis by linarith
  qed
qed

lemma to_double_mono:
  assumes "x \<le> y"
  shows "to_double x \<le> to_double y"
proof (cases "0 \<le> x")
  case True
  then show ?thesis using assms by (rule to_double_mono_nonneg)
next
  case False
  then have xneg: "0 \<le> - x" by simp
  show ?thesis
  proof (cases "0 \<le> y")
    case True
    have "0 \<le> to_double (- x)" using xneg by (rule to_double_nonneg)
    then have "to_double x \<le> 0" by (simp add: to_double_minus)
    moreover have "0 \<le> to_double y" using True by (rule to_double_nonneg)
    ultimately show ?thesis by linarith
  next
    case False
    then have "0 \<le> - y" and "- y \<le> - x" using assms by simp_all
    then have "to_double (- y) \<le> to_double (- x)" by (rule to_double_mono_nonneg)
    then show ?thesis by (simp add: to_double_minus)
  qed
qed

lemma to_double_idem_nonneg:
  assumes "0 \<le> x"
  shows "to_double (to_double x) = to_double x"
proof -
  let ?e = "double_exponent x"
  let ?u = "(2::real) powi (?e - 52)"
  define n where "n = round_half_even (x / ?u)"
  define y where "y = to_double x"
  have u: "0 < ?u" by simp
  have y: "y = of_int n * ?u" by (simp add: y_def n_def to_double_def Let_def)
  have y0: "0 \<le> y" unfolding y_def using assms by (rule to_double_nonneg)
  have yU: "y \<le> 2 powi (?e + 1)" unfolding y_def using assms by (rule to_double_upper)
  show ?thesis
  proof (cases "y = 2 powi (?e + 1)")
    case True
    have ey: "double_exponent y = ?e + 1"
    proof (rule double_exponent_unique)
      show "- 1022 \<le> ?e + 1" using double_exponent_ge [of x] by simp
      have "(2::real) powi (?e + 1) < 2 powi (?e + 1 + 1)"
        by (intro power_int_strict_increasing) simp_all
      then show "\<bar>y\<bar> < 2 powi (?e + 1 + 1)" using True by simp
      show "?e + 1 = - 1022 \<or> 2 powi (?e + 1) \<le> \<bar>y\<bar>" using True by simp
    qed
    have sp: "(2::real) powi (?e + 1) = 2 ^ 52 * 2 powi (?e + 1 - 52)"
      by (rule ulp_split_lo)
    have "y / 2 powi (?e + 1 - 52) = of_int (2 ^ 52)"
      unfolding True sp by simp
    then have "round_half_even (y / 2 powi (double_exponent y - 52)) = 2 ^ 52"
      unfolding ey by (simp only: round_half_even_of_int)
    then have "to_double y = 2 ^ 52 * 2 powi (?e + 1 - 52)"
      by (simp add: to_double_def Let_def ey)
    then show ?thesis unfolding y_def [symmetric] using True sp by simp
  next
    case False
    then have lt: "y < 2 powi (?e + 1)" using yU by simp
    have ey: "double_exponent y = ?e"
    proof (rule double_exponent_unique)
      show "- 1022 \<le> ?e" by (rule double_exponent_ge)
      show "\<bar>y\<bar> < 2 powi (?e + 1)" using lt y0 by simp
      show "?e = - 1022 \<or> 2 powi ?e \<le> \<bar>y\<bar>"
      proof (cases "?e = - 1022")
        case True
        then show ?thesis by simp
      next
        case False
        then have xn: "x \<noteq> 0" by (auto simp: double_exponent_def)
        from double_exponent_bounds [OF xn] False assms have "2 powi ?e \<le> x" by simp
        then have "2 powi ?e \<le> y" unfolding y_def by (rule to_double_lower)
        then show ?thesis using y0 by simp
      qed
    qed
    have "y / ?u = of_int n" using u by (simp add: y)
    then have "round_half_even (y / 2 powi (double_exponent y - 52)) = n"
      unfolding ey by (simp only: round_half_even_of_int)
    then have "to_double y = of_int n * ?u"
      by (simp add: to_double_def Let_def ey)
    then show ?thesis unfolding y_def [symmetric] using y by simp
  qed
qed

lemma to_double_idem: "to_double (to_double x) = to_double x"
proof (cases "0 \<le> x")
  case True
  then show ?thesis by (rule to_double_idem_nonneg)
next
  case False
  then have "0 \<le> - x" by simp
  then have "to_double (to_double (- x)) = to_double (- x)" by (rule to_double_idem_nonneg)
  then show ?thesis by (simp add: to_double_minus)
qed


lemma to_double_of_int:
  assumes "\<bar>m\<bar> < 2 ^ 53"
  shows "to_double (of_int m) = of_int m"
proof -
  let ?x = "of_int m :: real"
  let ?e = "double_exponent ?x"
  have le: "?e \<le> 52"
  proof (rule ccontr)
    assume "\<not> ?e \<le> 52"
    then have big: "53 \<le> ?e" by simp
    then have ne: "?e \<noteq> - 1022" by simp
    have xn: "?x \<noteq> 0"
    proof
      assume "?x = 0"
      then have "?e = - 1022" by (simp add: double_exponent_def)
      with ne show False by simp
    qed
    from double_exponent_bounds [OF xn] ne have "2 powi ?e \<le> \<bar>?x\<bar>" by simp
    moreover have "(2::real) powi 53 \<le> 2 powi ?e"
      using big by (intro power_int_increasing) simp_all
    moreover have "\<bar>?x\<bar> < 2 ^ 53"
    proof -
      have "(of_int \<bar>m\<bar> :: real) < of_int (2 ^ 53)" using assms by (simp only: of_int_less_iff)
      then show ?thesis by simp
    qed
    ultimately show False by simp
  qed
  define k where "k = nat (52 - ?e)"
  have u: "(2::real) powi (?e - 52) = 1 / 2 ^ k"
  proof -
    have "(2::real) powi (?e - 52) = 2 powi (- (52 - ?e))" by simp
    also have "\<dots> = 1 / 2 powi (52 - ?e)" by (rule power_int_minus_divide)
    also have "\<dots> = 1 / 2 ^ k" using le by (simp add: power_int_nonneg_exp k_def)
    finally show ?thesis .
  qed
  have "?x / (1 / 2 ^ k) = of_int (m * 2 ^ k)" by simp
  then have "round_half_even (?x / (1 / 2 ^ k)) = m * 2 ^ k"
    by (simp only: round_half_even_of_int)
  then show ?thesis
    by (simp add: to_double_def Let_def u)
qed

lemma to_double_numeral:
  "(numeral w :: int) < 2 ^ 53 \<Longrightarrow> to_double (numeral w) = numeral w"
  using to_double_of_int [of "numeral w"] by simp

lemma to_double_one: "to_double 1 = 1"
  using to_double_of_int [of 1] by simp

lemma to_double_abs: "to_double \<bar>to_double z\<bar> = \<bar>to_double z\<bar>"
proof (cases "0 \<le> to_double z")
  case True
  then show ?thesis by (simp add: to_double_idem)
next
  case False
  then have "\<bar>to_double z\<bar> = - to_double z" by simp
  then show ?thesis by (simp add: to_double_minus to_double_idem)
qed

lemmas to_double_eval =
  to_double_def double_exponent_def round_half_even_def compute_bitlen Let_def

section \<open>Properties of the reducer\<close>

lemma stride_loop_acc:
  "stride_loop ws k i (acc @ r) = acc @ stride_loop ws k i r"
proof (induction ws k i r rule: stride_loop.induct)
  case (1 ws k i r)
  show ?case
  proof (cases "1 \<le> k \<and> i < length ws")
    case True
    have "stride_loop ws k i (acc @ r) = stride_loop ws k (i + nat k) (acc @ (r @ [ws ! i]))"
      using True stride_loop.simps [of ws k i "acc @ r"] by simp
    also have "\<dots> = acc @ stride_loop ws k (i + nat k) (r @ [ws ! i])"
      using "1.IH" True by simp
    also have "stride_loop ws k (i + nat k) (r @ [ws ! i]) = stride_loop ws k i r"
      using True stride_loop.simps [of ws k i r] by simp
    finally show ?thesis .
  next
    case False
    have "stride_loop ws k i (acc @ r) = acc @ r"
      using False stride_loop.simps [of ws k i "acc @ r"] by auto
    moreover have "stride_loop ws k i r = r"
      using False stride_loop.simps [of ws k i r] by auto
    ultimately show ?thesis by simp
  qed
qed

lemma stride_loop_step:
  "1 \<le> k \<Longrightarrow> i < length ws \<Longrightarrow>
   stride_loop ws k i [] = ws ! i # stride_loop ws k (i + nat k) []"
  using stride_loop_acc [of ws k "i + nat k" "[ws ! i]" "[]"]
  by (simp add: stride_loop.simps [of ws k i "[]"])

lemma stride_loop_done:
  "length ws \<le> i \<Longrightarrow> stride_loop ws k i [] = []"
  by (simp add: stride_loop.simps [of ws k i "[]"])

lemma stride_loop_one:
  "stride_loop ws 1 i [] = drop i ws"
proof (induction "length ws - i" arbitrary: i)
  case 0
  then show ?case by (simp add: stride_loop_done)
next
  case (Suc n)
  then have lt: "i < length ws" and n: "n = length ws - Suc i" by simp_all
  have "stride_loop ws 1 i [] = ws ! i # stride_loop ws 1 (Suc i) []"
    using stride_loop_step [of 1 i ws] lt by simp
  also have "\<dots> = ws ! i # drop (Suc i) ws"
    using Suc.hyps(1) [OF n] by simp
  also have "\<dots> = drop i ws"
    using lt by (simp add: Cons_nth_drop_Suc)
  finally show ?case .
qed

lemma reduceWaypoints_one:
  "reduceWaypoints ws 1 = (if length ws \<le> 2 then ws else tl ws)"
proof (cases "length ws \<le> 2")
  case True
  then show ?thesis by (simp add: reduceWaypoints_def)
next
  case False
  then have ne: "drop 1 ws \<noteq> []" by simp
  have "last (drop 1 ws) = last ws"
    using False by (simp add: last_drop)
  then show ?thesis
    using False ne by (simp add: reduceWaypoints_def stride_loop_one drop_Suc)
qed

lemma stride_loop_nonempty:
  "1 \<le> k \<Longrightarrow> i < length ws \<Longrightarrow> stride_loop ws k i [] \<noteq> []"
  by (simp add: stride_loop_step)

lemma stride_loop_eval:
  "stride_loop ws k i [] =
     (if 1 \<le> k \<and> i < length ws then ws ! i # stride_loop ws k (i + nat k) [] else [])"
  using stride_loop_step [of k i ws] stride_loop.simps [of ws k i "[]"] by auto

section \<open>Properties of the volume loop and of one segment\<close>

lemma generateVolumes_loop_closed:
  "generateVolumes_loop config geod ws ts i volumes =
     volumes @ map (\<lambda>j. segment_volume config geod ts (ws ! j) (ws ! (j + 1)) j)
                 [i..<length ws - 1]"
proof (induction config geod ws ts i volumes rule: generateVolumes_loop.induct)
  case (1 config geod ws ts i volumes)
  show ?case
  proof (cases "i < length ws - 1")
    case True
    then show ?thesis
      using "1.IH" generateVolumes_loop.simps [of config geod ws ts i volumes]
      by (simp add: upt_conv_Cons)
  next
    case False
    then show ?thesis
      using generateVolumes_loop.simps [of config geod ws ts i volumes] by simp
  qed
qed

lemma generateVolumes_Inr:
  "ws \<noteq> [] \<Longrightarrow>
   generateVolumes config geod ws ts =
     Inr (map (\<lambda>j. segment_volume config geod ts (ws ! j) (ws ! (j + 1)) j) [0..<length ws - 1])"
  by (simp add: generateVolumes_def generateVolumes_loop_closed)

lemma generateVolumes_length:
  "generateVolumes config geod ws ts = Inr vols \<Longrightarrow> length vols = length ws - 1"
  by (cases "ws = []") (auto simp: generateVolumes_Inr, simp add: generateVolumes_def)

lemma generateVolumes_nth:
  "generateVolumes config geod ws ts = Inr vols \<Longrightarrow> i < length ws - 1 \<Longrightarrow>
   vols ! i = segment_volume config geod ts (ws ! i) (ws ! (i + 1)) i"
  by (cases "ws = []") (auto simp: generateVolumes_Inr)

lemma segment_volume_timeBegin:
  "timeBegin (segment_volume config geod ts wp1 wp2 i) =
     static_cast_long_long (to_double (to_double (ts + time wp1) - tbuf config))"
  by (simp add: segment_volume_def Let_def split: prod.split)

lemma segment_volume_timeEnd:
  "timeEnd (segment_volume config geod ts wp1 wp2 i) =
     static_cast_long_long (to_double (to_double (ts + time wp2) + tbuf config))"
  by (simp add: segment_volume_def Let_def split: prod.split)

lemma segment_volume_ordinal:
  "ordinal (segment_volume config geod ts wp1 wp2 i) = static_cast_int i"
  by (simp add: segment_volume_def Let_def split: prod.split)

lemma segment_volume_minAltitude:
  "alt_value (minAltitude (segment_volume config geod ts wp1 wp2 i)) =
     max minimum_ground_clearance
       (to_double
          (to_double (to_double (min (h wp1) (h wp2) + max (h wp1) (h wp2)) / 2) -
           snd (snd (segment_buffers config
             (calculateDistance geod (lat wp1) (lon wp1) (lat wp2) (lon wp2))
             \<bar>to_double (h wp2 - h wp1)\<bar>))))"
  by (simp add: segment_volume_def Let_def max_def split: prod.split)

lemma segment_volume_maxAltitude:
  "alt_value (maxAltitude (segment_volume config geod ts wp1 wp2 i)) =
     to_double
       (to_double (to_double (min (h wp1) (h wp2) + max (h wp1) (h wp2)) / 2) +
        snd (snd (segment_buffers config
          (calculateDistance geod (lat wp1) (lon wp1) (lat wp2) (lon wp2))
          \<bar>to_double (h wp2 - h wp1)\<bar>)))"
  by (simp add: segment_volume_def Let_def split: prod.split)

lemma segment_volume_coordinates:
  "coordinates (geometry (segment_volume config geod ts wp1 wp2 i)) =
     [generateOrientedRectangleCorners geod ((lat wp1 + lat wp2) / 2) ((lon wp1 + lon wp2) / 2)
        (calculateAzimuth geod (lat wp1) (lon wp1) (lat wp2) (lon wp2))
        (fst (segment_buffers config
          (calculateDistance geod (lat wp1) (lon wp1) (lat wp2) (lon wp2))
          \<bar>to_double (h wp2 - h wp1)\<bar>))
        (fst (snd (segment_buffers config
          (calculateDistance geod (lat wp1) (lon wp1) (lat wp2) (lon wp2))
          \<bar>to_double (h wp2 - h wp1)\<bar>)))]"
  by (simp add: segment_volume_def Let_def split: prod.split)

lemma vertical_buffer_nonneg:
  assumes "0 \<le> vd" and "0 \<le> TSE_V config"
  shows "0 \<le> snd (snd (segment_buffers config d vd))"
proof -
  have "0 \<le> to_double (vd / 2)" using assms(1) by (intro to_double_nonneg) simp
  then have "0 \<le> to_double (to_double (vd / 2) + TSE_V config)"
    using assms(2) by (intro to_double_nonneg) simp
  then show ?thesis using assms(2) by (simp add: segment_buffers_def)
qed

lemma static_cast_long_long_mono:
  "x \<le> y \<Longrightarrow> static_cast_long_long x \<le> static_cast_long_long y"
  unfolding static_cast_long_long_def
  by (auto intro: floor_mono ceiling_mono) (smt (verit) ceiling_le_zero zero_le_floor)

lemma static_cast_int_small:
  "i < 2 ^ 31 \<Longrightarrow> static_cast_int i = int i"
proof -
  assume lt: "i < 2 ^ 31"
  have "(word_of_nat i :: 32 word) = word_of_int (int i)" by simp
  then have "static_cast_int i = signed_take_bit 31 (int i)"
    unfolding static_cast_int_def by (simp only: sint_sbintrunc') simp
  also have "\<dots> = int i"
    using lt by (intro signed_take_bit_int_eq_self) simp_all
  finally show ?thesis .
qed

lemma static_cast_int_wrap: "static_cast_int 2147483648 = - 2147483648"
  unfolding static_cast_int_def by simp

lemma generateVolumes_set:
  assumes "generateVolumes config geod ws ts = Inr vols" and "v \<in> set vols"
  shows "\<exists>i wp1 wp2. v = segment_volume config geod ts wp1 wp2 i"
proof (cases "ws = []")
  case True
  with assms(1) show ?thesis by (simp add: generateVolumes_def)
next
  case False
  from generateVolumes_Inr [OF False, of config geod ts] assms(1)
  have "vols = map (\<lambda>j. segment_volume config geod ts (ws ! j) (ws ! (j + 1)) j)
                 [0..<length ws - 1]" by simp
  with assms(2) show ?thesis by auto
qed

lemma generateVolumes_ordinals:
  "ws \<noteq> [] \<Longrightarrow> generateVolumes config geod ws ts = Inr vols \<Longrightarrow>
   map ordinal vols = map static_cast_int [0..<length ws - 1]"
  by (auto simp: generateVolumes_Inr segment_volume_ordinal)

lemma two_volumes:
  "generateVolumes config geod [w1, w2] ts = Inr [segment_volume config geod ts w1 w2 0]"
  by (simp add: generateVolumes_Inr)

lemma scenario_volumes:
  "generateVolumes config geod [wp_a, wp_b, wp_c] ts =
     Inr [segment_volume config geod ts wp_a wp_b 0, segment_volume config geod ts wp_b wp_c 1]"
  by (simp add: generateVolumes_Inr upt_rec)

lemma segment_volume_alt_eval:
  "alt_value (minAltitude (segment_volume config geod ts wp1 wp2 i)) =
     (let V = snd (snd (segment_buffers config
            (calculateDistance geod (lat wp1) (lon wp1) (lat wp2) (lon wp2))
            \<bar>to_double (h wp2 - h wp1)\<bar>));
          m = to_double (to_double (min (h wp1) (h wp2) + max (h wp1) (h wp2)) / 2)
      in max 10 (to_double (m - V)))"
  by (simp add: segment_volume_minAltitude minimum_ground_clearance_def Let_def)

lemma tie_h_not_horizontal:
  "d = to_double (Alpha_H config * vd) \<Longrightarrow> \<not> is_horizontal config d vd"
  by (simp add: is_horizontal_def)

lemma tie_v_not_vertical:
  "vd = to_double (Alpha_V config * d) \<Longrightarrow> \<not> is_vertical config d vd"
  by (simp add: is_vertical_def)

lemma scaled_double_ge:
  assumes "1 \<le> c" and "0 \<le> x" and "to_double x = x"
  shows "x \<le> to_double (c * x)"
proof -
  have "1 * x \<le> c * x" using assms(1,2) by (rule mult_right_mono)
  then have "to_double x \<le> to_double (c * x)" by (intro to_double_mono) simp
  then show ?thesis using assms(3) by simp
qed

lemma tie_h_not_vertical:
  assumes "d = to_double (Alpha_H config * vd)"
    and "1 \<le> Alpha_H config" and "1 \<le> Alpha_V config"
    and "0 \<le> vd" and "to_double vd = vd"
  shows "\<not> is_vertical config d vd"
proof -
  have vd_d: "vd \<le> d"
    unfolding assms(1) using assms(2,4,5) by (rule scaled_double_ge)
  then have d0: "0 \<le> d" using assms(4) by simp
  have dd: "to_double d = d" unfolding assms(1) by (rule to_double_idem)
  have "d \<le> to_double (Alpha_V config * d)"
    using assms(3) d0 dd by (rule scaled_double_ge)
  with vd_d show ?thesis by (simp add: is_vertical_def)
qed

lemma tie_v_not_horizontal:
  assumes "vd = to_double (Alpha_V config * d)"
    and "1 \<le> Alpha_H config" and "1 \<le> Alpha_V config"
    and "0 \<le> d" and "to_double d = d"
  shows "\<not> is_horizontal config d vd"
proof -
  have d_vd: "d \<le> vd"
    unfolding assms(1) using assms(3,4,5) by (rule scaled_double_ge)
  then have v0: "0 \<le> vd" using assms(4) by simp
  have vv: "to_double vd = vd" unfolding assms(1) by (rule to_double_idem)
  have "vd \<le> to_double (Alpha_H config * vd)"
    using assms(2) v0 vv by (rule scaled_double_ge)
  with d_vd show ?thesis by (simp add: is_horizontal_def)
qed

lemma reduce_one_file: "reduceWaypoints (one_file ''traj.csv'') 20 = [wp_b, wp_d]"
  by (simp add: one_file_def reduceWaypoints_def stride_loop_eval wp_b_def wp_d_def)

section \<open>Claims about the reducer\<close>

text \<open>
  Claim C1, as amended. The claim says that reducing an already reduced sequence with
  stride 1 gives the same sequence back. The stride selection starts at index 1, so a
  sequence of three or more waypoints loses its first waypoint each time. What holds:
  for every output \<open>r\<close> of \<open>reduceWaypoints\<close>, reducing \<open>r\<close> with stride 1 returns \<open>r\<close>
  itself when \<open>r\<close> has at most 2 waypoints and \<open>r\<close> without its first waypoint otherwise;
  it is the identity exactly when \<open>r\<close> has at most 2 waypoints.
\<close>

theorem reduceWaypoints_again_stride_one:
  "reduceWaypoints (reduceWaypoints ws k) 1 =
     (if length (reduceWaypoints ws k) \<le> 2 then reduceWaypoints ws k
      else tl (reduceWaypoints ws k))
   \<and> ((reduceWaypoints (reduceWaypoints ws k) 1 = reduceWaypoints ws k)
        = (length (reduceWaypoints ws k) \<le> 2))"
proof -
  define r where "r = reduceWaypoints ws k"
  have eq: "reduceWaypoints r 1 = (if length r \<le> 2 then r else tl r)"
    by (rule reduceWaypoints_one)
  have "tl r \<noteq> r" if "2 < length r"
  proof
    assume "tl r = r"
    then have "length (tl r) = length r" by simp
    with that show False by simp
  qed
  with eq show ?thesis unfolding r_def [symmetric] by auto
qed

text \<open>
  The amended C1 at two trajectories: three waypoints reduce to two, which a second
  reduction keeps; four waypoints reduce to three, which a second reduction cuts to two.
\<close>

theorem reduceWaypoints_again_stride_one_witness:
  "reduceWaypoints [wp_a, wp_b, wp_c] 1 = [wp_b, wp_c]
   \<and> reduceWaypoints (reduceWaypoints [wp_a, wp_b, wp_c] 1) 1 = [wp_b, wp_c]
   \<and> reduceWaypoints [wp_a, wp_b, wp_c, wp_d] 1 = [wp_b, wp_c, wp_d]
   \<and> reduceWaypoints (reduceWaypoints [wp_a, wp_b, wp_c, wp_d] 1) 1 = [wp_c, wp_d]"
  using reduceWaypoints_again_stride_one [of "[wp_a, wp_b, wp_c]" 1]
    reduceWaypoints_again_stride_one [of "[wp_a, wp_b, wp_c, wp_d]" 1]
  by (simp add: reduceWaypoints_one)

text \<open>
  C1 as stated fails: the four-waypoint trajectory reduces (stride 1) to three waypoints,
  and reducing those again with stride 1 gives a different sequence.
\<close>

theorem reduceWaypoints_again_stride_one_not_identity:
  "reduceWaypoints (reduceWaypoints [wp_a, wp_b, wp_c, wp_d] 1) 1
     \<noteq> reduceWaypoints [wp_a, wp_b, wp_c, wp_d] 1"
  by (simp add: reduceWaypoints_one)

text \<open>
  Claim C5. For every input with at least 3 waypoints and every stride of at least 1,
  the reduced sequence is not empty and the \<open>time\<close> of its last element equals the
  \<open>time\<close> of the last element of the input.
\<close>

theorem reduceWaypoints_last_time:
  "3 \<le> length ws \<Longrightarrow> 1 \<le> k \<Longrightarrow>
   reduceWaypoints ws k \<noteq> [] \<and> time (last (reduceWaypoints ws k)) = time (last ws)"
proof -
  assume len: "3 \<le> length ws" and k: "1 \<le> k"
  define reduced where "reduced = stride_loop ws k 1 []"
  have ne: "reduced \<noteq> []"
    unfolding reduced_def using len k by (intro stride_loop_nonempty) simp_all
  have red: "reduceWaypoints ws k =
      (if time (last reduced) \<noteq> time (last ws) then reduced @ [last ws] else reduced)"
    using len k ne by (simp add: reduceWaypoints_def reduced_def Let_def)
  show ?thesis
  proof (cases "time (last reduced) = time (last ws)")
    case True
    with red ne show ?thesis by simp
  next
    case False
    with red show ?thesis by simp
  qed
qed

text \<open>
  C5 at four waypoints and stride 3: the stride picks index 1 only, and the last
  waypoint is appended.
\<close>

theorem reduceWaypoints_last_time_witness:
  "3 \<le> length [wp_a, wp_b, wp_c, wp_d] \<and> (1::int) \<le> 3
   \<and> reduceWaypoints [wp_a, wp_b, wp_c, wp_d] 3 = [wp_b, wp_d]
   \<and> time (last (reduceWaypoints [wp_a, wp_b, wp_c, wp_d] 3)) = time (last [wp_a, wp_b, wp_c, wp_d])"
  using reduceWaypoints_last_time [of "[wp_a, wp_b, wp_c, wp_d]" 3]
  by (simp add: reduceWaypoints_def stride_loop_eval wp_b_def wp_d_def)

section \<open>Claims about the buffer polygon\<close>

text \<open>
  Claim C7. For every midpoint, bearing, along-track half-length \<open>A\<close> and cross-track
  half-width \<open>C\<close>, \<open>generateOrientedRectangleCorners\<close> returns exactly 5 vertices in the
  order front-left, front-right, back-right, back-left, front-left: the front and back
  points lie at distance \<open>A\<close> along the bearing and along the bearing plus 180, the
  corners at distance \<open>C\<close> along the bearing minus and plus 90, and the first and the
  last vertex are the same.
\<close>

theorem generateOrientedRectangleCorners_closed:
  "generateOrientedRectangleCorners geod mid_lat mid_lon azimuth A C =
     (let front = Direct geod mid_lat mid_lon azimuth A;
          back = Direct geod mid_lat mid_lon (azimuth + 180) A;
          front_left = Direct geod (fst front) (snd front) (azimuth - 90) C;
          front_right = Direct geod (fst front) (snd front) (azimuth + 90) C;
          back_right = Direct geod (fst back) (snd back) (azimuth + 90) C;
          back_left = Direct geod (fst back) (snd back) (azimuth - 90) C
      in [\<lparr>getLon = snd front_left, getLat = fst front_left\<rparr>,
          \<lparr>getLon = snd front_right, getLat = fst front_right\<rparr>,
          \<lparr>getLon = snd back_right, getLat = fst back_right\<rparr>,
          \<lparr>getLon = snd back_left, getLat = fst back_left\<rparr>,
          \<lparr>getLon = snd front_left, getLat = fst front_left\<rparr>])
   \<and> length (generateOrientedRectangleCorners geod mid_lat mid_lon azimuth A C) = 5
   \<and> hd (generateOrientedRectangleCorners geod mid_lat mid_lon azimuth A C)
       = last (generateOrientedRectangleCorners geod mid_lat mid_lon azimuth A C)"
  by (simp add: generateOrientedRectangleCorners_def Let_def split: prod.split)

text \<open>
  C7 on the planar stand-in: one degree each way around the midpoint (40, -3), bearing 0.
\<close>

theorem generateOrientedRectangleCorners_closed_witness:
  "generateOrientedRectangleCorners planar_geodesic 40 (-3) 0 111195 111195 =
     [\<lparr>getLon = -4, getLat = 41\<rparr>, \<lparr>getLon = -2, getLat = 41\<rparr>,
      \<lparr>getLon = -2, getLat = 39\<rparr>, \<lparr>getLon = -4, getLat = 39\<rparr>,
      \<lparr>getLon = -4, getLat = 41\<rparr>]"
  using generateOrientedRectangleCorners_closed [of planar_geodesic 40 "-3" 0 111195 111195]
  by (simp add: planar_geodesic_def Let_def)

section \<open>Claims about the volume sequence\<close>

text \<open>
  Claim C6, as amended. The claim says that for every reduced sequence of \<open>N \<ge> 2\<close>
  waypoints \<open>generateVolumes\<close> returns \<open>N - 1\<close> volumes with ordinals \<open>0, 1, ..., N - 2\<close> in
  that order. The ordinal is the loop index converted to a 32-bit \<^verbatim>\<open>int\<close>, so this
  holds as long as the indices fit: for every reduced sequence of \<open>N\<close> waypoints with
  \<open>2 \<le> N \<le> 2^31 + 1\<close>, \<open>generateVolumes\<close> returns exactly \<open>N - 1\<close> volumes whose ordinals
  are \<open>0, 1, ..., N - 2\<close> in that order.
\<close>

theorem generateVolumes_ordinals_contiguous:
  assumes "2 \<le> length ws" and "length ws \<le> 2 ^ 31 + 1"
  shows "\<exists>vols. generateVolumes config geod ws ts = Inr vols
           \<and> length vols = length ws - 1
           \<and> map ordinal vols = map int [0..<length ws - 1]"
proof -
  from assms(1) have ne: "ws \<noteq> []" by auto
  define vols where
    "vols = map (\<lambda>j. segment_volume config geod ts (ws ! j) (ws ! (j + 1)) j) [0..<length ws - 1]"
  have gen: "generateVolumes config geod ws ts = Inr vols"
    unfolding vols_def using ne by (rule generateVolumes_Inr)
  have len: "length vols = length ws - 1"
    by (simp add: vols_def)
  have "map static_cast_int [0..<length ws - 1] = map int [0..<length ws - 1]"
  proof (rule map_cong [OF refl])
    fix j assume "j \<in> set [0..<length ws - 1]"
    then have "j < 2 ^ 31" using assms(2) by simp
    then show "static_cast_int j = int j" by (rule static_cast_int_small)
  qed
  with generateVolumes_ordinals [OF ne gen]
  have "map ordinal vols = map int [0..<length ws - 1]" by simp
  with gen len show ?thesis by blast
qed

text \<open>The amended C6 on the three waypoints of the scenario: two volumes, ordinals 0 and 1.\<close>

theorem generateVolumes_ordinals_contiguous_witness:
  "2 \<le> length [wp_a, wp_b, wp_c] \<and> length [wp_a, wp_b, wp_c] \<le> 2 ^ 31 + 1
   \<and> (case generateVolumes default_config planar_geodesic [wp_a, wp_b, wp_c] 1000 of
         Inl e \<Rightarrow> False
       | Inr vols \<Rightarrow> length vols = 2 \<and> map ordinal vols = [0, 1])"
  using generateVolumes_ordinals_contiguous
          [of "[wp_a, wp_b, wp_c]" default_config planar_geodesic 1000]
  by (auto simp: upt_rec)

text \<open>
  C6 as stated fails on a sequence of \<open>2^31 + 2\<close> waypoints: there are \<open>2^31 + 1\<close> volumes,
  and the one at index \<open>2^31\<close> has ordinal \<open>- 2^31\<close>.
\<close>

theorem generateVolumes_ordinal_wraps:
  "(case generateVolumes default_config planar_geodesic (replicate 2147483650 wp_a) 0 of
      Inl e \<Rightarrow> False
    | Inr vols \<Rightarrow> length vols = 2147483649 \<and> ordinal (vols ! 2147483648) = - 2147483648)"
proof -
  have ne: "replicate 2147483650 wp_a \<noteq> []" by simp
  show ?thesis
    by (simp add: generateVolumes_Inr [OF ne] segment_volume_ordinal static_cast_int_wrap)
qed

text \<open>
  Claim C8, as amended. The claim says that the time window of the segment \<open>(wp1, wp2)\<close>
  is \<open>start_timestamp + time wp1 - tbuf\<close> to \<open>start_timestamp + time wp2 + tbuf\<close>, both
  ends truncated to integer seconds. The code evaluates the two ends in double
  arithmetic, and the truncation of a rounded sum can be one second away from the
  truncation of the exact sum. What holds, for every segment
  \<open>(wp1, wp2) = (ws ! i, ws ! (i + 1))\<close>, every start timestamp and every time buffer: the
  begin is \<open>start_timestamp + time wp1\<close> rounded to a double, minus \<open>tbuf\<close>, rounded to a
  double, truncated towards zero; the end is \<open>start_timestamp + time wp2\<close> rounded to a
  double, plus \<open>tbuf\<close>, rounded to a double, truncated towards zero; and an end is the
  truncation of the exact sum whenever its two double operations are exact.
\<close>

theorem generateVolumes_time_window:
  assumes "generateVolumes config geod ws start_timestamp = Inr vols" and "i < length ws - 1"
  shows "timeBegin (vols ! i) =
           (let x = to_double (to_double (start_timestamp + time (ws ! i)) - tbuf config)
            in if 0 \<le> x then \<lfloor>x\<rfloor> else \<lceil>x\<rceil>)
         \<and> timeEnd (vols ! i) =
           (let y = to_double (to_double (start_timestamp + time (ws ! (i + 1))) + tbuf config)
            in if 0 \<le> y then \<lfloor>y\<rfloor> else \<lceil>y\<rceil>)
         \<and> (to_double (start_timestamp + time (ws ! i)) = start_timestamp + time (ws ! i)
              \<and> to_double (start_timestamp + time (ws ! i) - tbuf config)
                  = start_timestamp + time (ws ! i) - tbuf config
              \<longrightarrow> timeBegin (vols ! i) =
                    (let x = start_timestamp + time (ws ! i) - tbuf config
                     in if 0 \<le> x then \<lfloor>x\<rfloor> else \<lceil>x\<rceil>))
         \<and> (to_double (start_timestamp + time (ws ! (i + 1)))
                  = start_timestamp + time (ws ! (i + 1))
              \<and> to_double (start_timestamp + time (ws ! (i + 1)) + tbuf config)
                  = start_timestamp + time (ws ! (i + 1)) + tbuf config
              \<longrightarrow> timeEnd (vols ! i) =
                    (let y = start_timestamp + time (ws ! (i + 1)) + tbuf config
                     in if 0 \<le> y then \<lfloor>y\<rfloor> else \<lceil>y\<rceil>))"
  using generateVolumes_nth [OF assms]
  by (simp add: segment_volume_timeBegin segment_volume_timeEnd static_cast_long_long_def Let_def)

text \<open>
  The amended C8 on a segment from 0.5 s to 10.5 s with buffer 5 s. From the start
  1000.75 the ends are 996.25 and 1016.25, truncated to 996 and 1016; from the start
  - 1000.75 they are - 1005.25 and - 985.25, truncated towards zero to - 1005 and - 985.
  All the double operations are exact here.
\<close>

theorem generateVolumes_time_window_witness:
  "(case generateVolumes default_config planar_geodesic [wp_e, wp_f] 1000.75 of
      Inl e \<Rightarrow> False
    | Inr vols \<Rightarrow> timeBegin (vols ! 0) = 996 \<and> timeEnd (vols ! 0) = 1016)
   \<and> (case generateVolumes default_config planar_geodesic [wp_e, wp_f] (- 1000.75) of
      Inl e \<Rightarrow> False
    | Inr vols \<Rightarrow> timeBegin (vols ! 0) = - 1005 \<and> timeEnd (vols ! 0) = - 985)"
  using generateVolumes_time_window
          [OF two_volumes [of default_config planar_geodesic wp_e wp_f "1000.75"], of 0]
        generateVolumes_time_window
          [OF two_volumes [of default_config planar_geodesic wp_e wp_f "- 1000.75"], of 0]
  unfolding two_volumes
  by (simp add: default_config_def wp_e_def wp_f_def to_double_eval)

text \<open>
  C8 as stated fails at the start 1756717200 for a waypoint at \<open>5 - 2 powi - 23\<close> seconds
  with buffer 5 s: the exact begin is just under 1756717200 and truncates to 1756717199,
  while the double sum of start and time is 1756717205 and the begin is 1756717200.
\<close>

theorem generateVolumes_time_window_rounds:
  "(case generateVolumes default_config planar_geodesic [wp_g, wp_f] 1756717200 of
      Inl e \<Rightarrow> False
    | Inr vols \<Rightarrow> timeBegin (vols ! 0) = 1756717200)
   \<and> (let x = 1756717200 + time wp_g - tbuf default_config
       in if 0 \<le> x then \<lfloor>x\<rfloor> else \<lceil>x\<rceil>) = 1756717199"
  unfolding two_volumes
  by (simp add: segment_volume_timeBegin static_cast_long_long_def default_config_def
        wp_g_def to_double_eval)

text \<open>
  Claim C10. For every time buffer \<open>tbuf \<ge> 0\<close> the time windows of consecutive volumes
  overlap: volume \<open>i\<close> ends at the truncation of \<open>start_timestamp + time (ws ! (i + 1)) + tbuf\<close>,
  volume \<open>i + 1\<close> begins at the truncation of \<open>start_timestamp + time (ws ! (i + 1)) - tbuf\<close>
  (both evaluated in double arithmetic), and the begin of volume \<open>i + 1\<close> is at most the
  end of volume \<open>i\<close>.
\<close>

theorem generateVolumes_windows_overlap:
  assumes "0 \<le> tbuf config"
    and "generateVolumes config geod ws start_timestamp = Inr vols"
    and "i + 1 < length vols"
  shows "timeEnd (vols ! i)
           = static_cast_long_long
               (to_double (to_double (start_timestamp + time (ws ! (i + 1))) + tbuf config))
         \<and> timeBegin (vols ! (i + 1))
           = static_cast_long_long
               (to_double (to_double (start_timestamp + time (ws ! (i + 1))) - tbuf config))
         \<and> timeBegin (vols ! (i + 1)) \<le> timeEnd (vols ! i)"
proof -
  have len: "length vols = length ws - 1"
    using assms(2) by (rule generateVolumes_length)
  have a: "vols ! i = segment_volume config geod start_timestamp (ws ! i) (ws ! (i + 1)) i"
    using assms(3) len by (intro generateVolumes_nth [OF assms(2)]) simp
  have b: "vols ! (i + 1) =
      segment_volume config geod start_timestamp (ws ! (i + 1)) (ws ! (i + 1 + 1)) (i + 1)"
    using assms(3) len by (intro generateVolumes_nth [OF assms(2)]) simp
  define s where "s = to_double (start_timestamp + time (ws ! (i + 1)))"
  have "s - tbuf config \<le> s + tbuf config"
    using assms(1) by simp
  then have "to_double (s - tbuf config) \<le> to_double (s + tbuf config)"
    by (rule to_double_mono)
  then have "static_cast_long_long (to_double (s - tbuf config))
          \<le> static_cast_long_long (to_double (s + tbuf config))"
    by (rule static_cast_long_long_mono)
  then show ?thesis
    unfolding a b segment_volume_timeBegin segment_volume_timeEnd s_def by simp
qed

text \<open>C10 on the scenario: the second volume begins at 1005, the first ends at 1015.\<close>

theorem generateVolumes_windows_overlap_witness:
  "0 \<le> tbuf default_config
   \<and> (case generateVolumes default_config planar_geodesic [wp_a, wp_b, wp_c] 1000 of
      Inl e \<Rightarrow> False
    | Inr vols \<Rightarrow> 0 + 1 < length vols \<and> timeBegin (vols ! (0 + 1)) = 1005
         \<and> timeEnd (vols ! 0) = 1015 \<and> timeBegin (vols ! (0 + 1)) \<le> timeEnd (vols ! 0))"
  using generateVolumes_windows_overlap
          [OF _ scenario_volumes [of default_config planar_geodesic 1000], of 0]
  unfolding scenario_volumes
  by (simp add: segment_volume_timeBegin segment_volume_timeEnd
        static_cast_long_long_def default_config_def wp_a_def wp_b_def wp_c_def
        to_double_numeral)

section \<open>Claims about the altitude band\<close>

text \<open>
  Claim C2, as amended. The claim says that every produced volume has
  \<open>altitude_min \<ge> 10\<close> and \<open>altitude_min \<le> altitude_max\<close>, for all heights and all
  configurations. The floor of 10 m is applied to the lower bound only. What holds: every
  produced volume has \<open>altitude_min \<ge> 10\<close>; and when \<open>TSE_V \<ge> 0\<close> and the volume's
  \<open>altitude_max\<close> is at least 10, then \<open>altitude_min \<le> altitude_max\<close>.
\<close>

theorem generateVolumes_altitude_band:
  assumes "generateVolumes config geod ws start_timestamp = Inr vols" and "v \<in> set vols"
  shows "10 \<le> alt_value (minAltitude v)
         \<and> (0 \<le> TSE_V config \<and> 10 \<le> alt_value (maxAltitude v)
              \<longrightarrow> alt_value (minAltitude v) \<le> alt_value (maxAltitude v))"
proof -
  obtain i wp1 wp2 where v: "v = segment_volume config geod start_timestamp wp1 wp2 i"
    using generateVolumes_set [OF assms] by blast
  define V where "V = snd (snd (segment_buffers config
      (calculateDistance geod (lat wp1) (lon wp1) (lat wp2) (lon wp2))
      \<bar>to_double (h wp2 - h wp1)\<bar>))"
  define m where "m = to_double (to_double (min (h wp1) (h wp2) + max (h wp1) (h wp2)) / 2)"
  have lo: "alt_value (minAltitude v) = max 10 (to_double (m - V))"
    unfolding v segment_volume_minAltitude V_def m_def minimum_ground_clearance_def ..
  have hi: "alt_value (maxAltitude v) = to_double (m + V)"
    unfolding v segment_volume_maxAltitude V_def m_def ..
  have "to_double (m - V) \<le> to_double (m + V)" if "0 \<le> TSE_V config"
  proof -
    have "0 \<le> V" unfolding V_def using that by (intro vertical_buffer_nonneg) simp_all
    then have "m - V \<le> m + V" by simp
    then show ?thesis by (rule to_double_mono)
  qed
  then show ?thesis
    unfolding lo hi by auto
qed

text \<open>The amended C2 on the first volume of the scenario: the band is [10, 60].\<close>

theorem generateVolumes_altitude_band_witness:
  "0 \<le> TSE_V default_config
   \<and> (case generateVolumes default_config planar_geodesic [wp_a, wp_b, wp_c] 1000 of
      Inl e \<Rightarrow> False
    | Inr vols \<Rightarrow> vols ! 0 \<in> set vols
        \<and> alt_value (minAltitude (vols ! 0)) = 10 \<and> alt_value (maxAltitude (vols ! 0)) = 60
        \<and> 10 \<le> alt_value (minAltitude (vols ! 0))
        \<and> alt_value (minAltitude (vols ! 0)) \<le> alt_value (maxAltitude (vols ! 0)))"
proof -
  let ?v = "segment_volume default_config planar_geodesic 1000 wp_a wp_b 0"
  have d: "calculateDistance planar_geodesic (lat wp_a) (lon wp_a) (lat wp_b) (lon wp_b)
      = 111195 / 10000"
    by (simp add: calculateDistance_def planar_geodesic_def wp_a_def wp_b_def)
  have vd: "\<bar>to_double (h wp_b - h wp_a)\<bar> = 50"
    by (simp add: wp_a_def wp_b_def to_double_numeral)
  have nh: "\<not> is_horizontal default_config (111195 / 10000) 50"
    by (simp add: is_horizontal_def default_config_def to_double_numeral)
  have "to_double (111195 / 10000) < 50"
    by (simp add: to_double_eval)
  then have iv: "is_vertical default_config (111195 / 10000) 50"
    by (simp add: is_vertical_def default_config_def)
  have row: "segment_buffers default_config (111195 / 10000) 50 = (15, 15, 35)"
    using nh iv by (simp add: segment_buffers_def default_config_def to_double_numeral)
  have m: "to_double (to_double (min (h wp_a) (h wp_b) + max (h wp_a) (h wp_b)) / 2) = 25"
    by (simp add: wp_a_def wp_b_def to_double_numeral)
  have lo: "alt_value (minAltitude ?v) = 10"
    unfolding segment_volume_minAltitude d vd row m
    by (simp add: minimum_ground_clearance_def to_double_minus to_double_numeral)
  have hi: "alt_value (maxAltitude ?v) = 60"
    unfolding segment_volume_maxAltitude d vd row m
    by (simp add: to_double_numeral)
  have tse: "0 \<le> TSE_V default_config" by (simp add: default_config_def)
  from generateVolumes_altitude_band
          [OF scenario_volumes [of default_config planar_geodesic 1000], of ?v] lo hi tse
  show ?thesis
    unfolding scenario_volumes by simp
qed

text \<open>
  C2 as stated fails for two waypoints on the ground (height 0) with \<open>TSE_V = 5\<close>: the
  band is centred on 0 with half-height 5, so \<open>altitude_max = 5\<close>, while the floor lifts
  \<open>altitude_min\<close> to 10.
\<close>

theorem generateVolumes_altitude_band_inverted:
  "(case generateVolumes low_margin_config planar_geodesic [wp_a, wp_ground] 0 of
      Inl e \<Rightarrow> False
    | Inr vols \<Rightarrow> length vols = 1 \<and> alt_value (minAltitude (vols ! 0)) = 10
         \<and> alt_value (maxAltitude (vols ! 0)) = 5
         \<and> \<not> alt_value (minAltitude (vols ! 0)) \<le> alt_value (maxAltitude (vols ! 0)))"
proof -
  let ?v = "segment_volume low_margin_config planar_geodesic 0 wp_a wp_ground 0"
  have d: "calculateDistance planar_geodesic (lat wp_a) (lon wp_a) (lat wp_ground) (lon wp_ground)
      = 111195 / 10000"
    by (simp add: calculateDistance_def planar_geodesic_def wp_a_def wp_ground_def)
  have vd: "\<bar>to_double (h wp_ground - h wp_a)\<bar> = 0"
    by (simp add: wp_a_def wp_ground_def to_double_zero)
  have ih: "is_horizontal low_margin_config (111195 / 10000) 0"
    by (simp add: is_horizontal_def to_double_zero)
  have V: "snd (snd (segment_buffers low_margin_config (111195 / 10000) 0)) = 5"
    using ih by (simp add: segment_buffers_def low_margin_config_def)
  have m: "to_double (to_double (min (h wp_a) (h wp_ground) + max (h wp_a) (h wp_ground)) / 2)
      = 0"
    by (simp add: wp_a_def wp_ground_def to_double_zero)
  have lo: "alt_value (minAltitude ?v) = 10"
    unfolding segment_volume_minAltitude d vd V m
    by (simp add: minimum_ground_clearance_def to_double_minus to_double_numeral)
  have hi: "alt_value (maxAltitude ?v) = 5"
    unfolding segment_volume_maxAltitude d vd V m
    by (simp add: to_double_numeral)
  show ?thesis
    unfolding two_volumes using lo hi by simp
qed

section \<open>Claims about the classification of a segment\<close>

text \<open>
  Claim C3, as amended. In the scenario (three waypoints, the second and third at the same
  position and height, \<open>TSE_H = 15\<close>, \<open>TSE_V = 10\<close>, \<open>Alpha_H = 7\<close>, \<open>Alpha_V = 1\<close>,
  \<open>tbuf = 5\<close>, start 1000) the claim says that the second segment is classified by the
  horizontal-dominant branch. Its distance is 0 and its vertical change is 0, and
  \<open>0 > 7 * 0\<close> is false: the segment is neither horizontal- nor vertical-dominant and is
  sized by the mixed row, which here gives the same numbers. What holds, for every
  geodesy primitive that returns distance 0 between the two coincident points: the second
  segment takes the mixed branch, with along-track \<open>0 / 2 + 15 = 15\<close>, cross-track 15 and
  vertical half-height \<open>0 / 2 + 10 = 10\<close>, altitude band [40, 60] and time window
  [1005, 1045].
\<close>

theorem scenario_second_segment:
  assumes "calculateDistance geod (lat wp_b) (lon wp_b) (lat wp_c) (lon wp_c) = 0"
  shows "\<exists>v1 v2. generateVolumes default_config geod [wp_a, wp_b, wp_c] 1000 = Inr [v1, v2]
     \<and> \<not> is_horizontal default_config
           (calculateDistance geod (lat wp_b) (lon wp_b) (lat wp_c) (lon wp_c)) \<bar>h wp_c - h wp_b\<bar>
     \<and> \<not> is_vertical default_config
           (calculateDistance geod (lat wp_b) (lon wp_b) (lat wp_c) (lon wp_c)) \<bar>h wp_c - h wp_b\<bar>
     \<and> segment_buffers default_config
           (calculateDistance geod (lat wp_b) (lon wp_b) (lat wp_c) (lon wp_c)) \<bar>h wp_c - h wp_b\<bar>
         = (15, 15, 10)
     \<and> coordinates (geometry v2) =
         [generateOrientedRectangleCorners geod 40.0001 (-3)
            (calculateAzimuth geod (lat wp_b) (lon wp_b) (lat wp_c) (lon wp_c)) 15 15]
     \<and> alt_value (minAltitude v2) = 40 \<and> alt_value (maxAltitude v2) = 60
     \<and> timeBegin v2 = 1005 \<and> timeEnd v2 = 1045"
proof -
  have hb: "\<bar>h wp_c - h wp_b\<bar> = 0" by (simp add: wp_b_def wp_c_def)
  have hr: "\<bar>to_double (h wp_c - h wp_b)\<bar> = 0"
    by (simp add: wp_b_def wp_c_def to_double_zero)
  have nh: "\<not> is_horizontal default_config 0 0"
    by (simp add: is_horizontal_def to_double_zero)
  have nv: "\<not> is_vertical default_config 0 0"
    by (simp add: is_vertical_def to_double_zero)
  have row: "segment_buffers default_config 0 0 = (15, 15, 10)"
    by (simp add: segment_buffers_def is_horizontal_def is_vertical_def default_config_def
          to_double_zero to_double_numeral)
  let ?v2 = "segment_volume default_config geod 1000 wp_b wp_c 1"
  have co: "coordinates (geometry ?v2) =
         [generateOrientedRectangleCorners geod 40.0001 (-3)
            (calculateAzimuth geod (lat wp_b) (lon wp_b) (lat wp_c) (lon wp_c)) 15 15]"
    unfolding segment_volume_coordinates assms hr row
    by (simp add: wp_b_def wp_c_def)
  have lo: "alt_value (minAltitude ?v2) = 40"
    unfolding segment_volume_minAltitude assms hr row
    by (simp add: wp_b_def wp_c_def minimum_ground_clearance_def to_double_numeral)
  have hi: "alt_value (maxAltitude ?v2) = 60"
    unfolding segment_volume_maxAltitude assms hr row
    by (simp add: wp_b_def wp_c_def to_double_numeral)
  have tb: "timeBegin ?v2 = 1005"
    by (simp add: segment_volume_timeBegin static_cast_long_long_def default_config_def wp_b_def
          to_double_numeral)
  have te: "timeEnd ?v2 = 1045"
    by (simp add: segment_volume_timeEnd static_cast_long_long_def default_config_def wp_c_def
          to_double_numeral)
  show ?thesis
    unfolding scenario_volumes assms hb
    using nh nv row co lo hi tb te by blast
qed

text \<open>The amended C3 on the planar stand-in, whose distance between the two points is 0.\<close>

theorem scenario_second_segment_witness:
  "calculateDistance planar_geodesic (lat wp_b) (lon wp_b) (lat wp_c) (lon wp_c) = 0
   \<and> (case generateVolumes default_config planar_geodesic [wp_a, wp_b, wp_c] 1000 of
        Inl e \<Rightarrow> False
      | Inr vols \<Rightarrow> length vols = 2
          \<and> alt_value (minAltitude (vols ! 1)) = 40 \<and> alt_value (maxAltitude (vols ! 1)) = 60
          \<and> timeBegin (vols ! 1) = 1005 \<and> timeEnd (vols ! 1) = 1045)"
proof -
  have d: "calculateDistance planar_geodesic (lat wp_b) (lon wp_b) (lat wp_c) (lon wp_c) = 0"
    by (simp add: calculateDistance_def planar_geodesic_def wp_b_def wp_c_def)
  from scenario_second_segment [OF d] show ?thesis
    using d by auto
qed

text \<open>
  C3 as stated fails: with distance 0 between the coincident second and third waypoint
  and no vertical change, the horizontal-dominant test of the second segment is false.
\<close>

theorem scenario_second_segment_not_horizontal:
  "\<not> is_horizontal default_config
       (calculateDistance planar_geodesic (lat wp_b) (lon wp_b) (lat wp_c) (lon wp_c))
       \<bar>h wp_c - h wp_b\<bar>"
  by (simp add: is_horizontal_def calculateDistance_def planar_geodesic_def default_config_def
        wp_b_def wp_c_def to_double_zero)

text \<open>
  Claim C4, as amended. The claim says that, for every configuration, exact equality in
  a classification inequality resolves to the mixed branch, in particular when the
  horizontal distance equals \<open>Alpha_H\<close> times the vertical distance. The code compares
  against the product rounded to a double, and tries the two tests in order before the
  mixed row. What holds, for every configuration and all distances \<open>d\<close> (horizontal) and
  \<open>vd\<close> (vertical):
  \<^item> when \<open>d\<close> equals the double product \<open>Alpha_H * vd\<close>, the segment is not
    horizontal-dominant; it gets the mixed row (along-track \<open>d / 2 + TSE_H\<close>, cross-track
    \<open>TSE_H\<close>, vertical half-height \<open>vd / 2 + TSE_V\<close>, in double arithmetic) unless it is
    vertical-dominant, and then it gets the vertical row;
  \<^item> when \<open>vd\<close> equals the double product \<open>Alpha_V * d\<close>, the segment is not
    vertical-dominant; it gets the mixed row unless it is horizontal-dominant, and then
    it gets the horizontal row;
  \<^item> when \<open>Alpha_H \<ge> 1\<close> and \<open>Alpha_V \<ge> 1\<close>, as with the default thresholds 7 and 1, and
    the tied distance is a non-negative double, neither exception occurs: both ties get
    the mixed row.
\<close>

theorem classification_ties:
  "(d = to_double (Alpha_H config * vd) \<longrightarrow>
      \<not> is_horizontal config d vd
      \<and> segment_buffers config d vd =
          (if is_vertical config d vd
           then (TSE_H config, TSE_H config, to_double (to_double (vd / 2) + TSE_V config))
           else (to_double (to_double (d / 2) + TSE_H config), TSE_H config,
                 to_double (to_double (vd / 2) + TSE_V config)))
      \<and> (1 \<le> Alpha_H config \<and> 1 \<le> Alpha_V config \<and> 0 \<le> vd \<and> to_double vd = vd
           \<longrightarrow> \<not> is_vertical config d vd))
   \<and> (vd = to_double (Alpha_V config * d) \<longrightarrow>
      \<not> is_vertical config d vd
      \<and> segment_buffers config d vd =
          (if is_horizontal config d vd
           then (to_double (to_double (d / 2) + TSE_H config), TSE_H config, TSE_V config)
           else (to_double (to_double (d / 2) + TSE_H config), TSE_H config,
                 to_double (to_double (vd / 2) + TSE_V config)))
      \<and> (1 \<le> Alpha_H config \<and> 1 \<le> Alpha_V config \<and> 0 \<le> d \<and> to_double d = d
           \<longrightarrow> \<not> is_horizontal config d vd))"
proof (intro conjI impI)
  assume tie: "d = to_double (Alpha_H config * vd)"
  show nh: "\<not> is_horizontal config d vd" using tie by (rule tie_h_not_horizontal)
  show "segment_buffers config d vd =
          (if is_vertical config d vd
           then (TSE_H config, TSE_H config, to_double (to_double (vd / 2) + TSE_V config))
           else (to_double (to_double (d / 2) + TSE_H config), TSE_H config,
                 to_double (to_double (vd / 2) + TSE_V config)))"
    using nh by (simp add: segment_buffers_def)
next
  assume "d = to_double (Alpha_H config * vd)"
    and "1 \<le> Alpha_H config \<and> 1 \<le> Alpha_V config \<and> 0 \<le> vd \<and> to_double vd = vd"
  then show "\<not> is_vertical config d vd"
    by (intro tie_h_not_vertical) simp_all
next
  assume tie: "vd = to_double (Alpha_V config * d)"
  show nv: "\<not> is_vertical config d vd" using tie by (rule tie_v_not_vertical)
  show "segment_buffers config d vd =
          (if is_horizontal config d vd
           then (to_double (to_double (d / 2) + TSE_H config), TSE_H config, TSE_V config)
           else (to_double (to_double (d / 2) + TSE_H config), TSE_H config,
                 to_double (to_double (vd / 2) + TSE_V config)))"
    using nv by (simp add: segment_buffers_def)
next
  assume "vd = to_double (Alpha_V config * d)"
    and "1 \<le> Alpha_H config \<and> 1 \<le> Alpha_V config \<and> 0 \<le> d \<and> to_double d = d"
  then show "\<not> is_horizontal config d vd"
    by (intro tie_v_not_horizontal) simp_all
qed

text \<open>
  The amended C4 under the default thresholds, at three ties where the three sizing rows
  differ. With \<open>vd = 15885 / 1024\<close> and \<open>d = 7 * vd\<close> the product is exact. With
  \<open>vd = 13.522987986828882\<close> and \<open>d = 94.66091590780218\<close> the exact product \<open>7 * vd\<close> is
  below \<open>d\<close> and rounds to \<open>d\<close>. With \<open>d = vd = 2\<close> the vertical test ties. Each gets the
  mixed row.
\<close>

theorem classification_ties_witness:
  "(111195 / 1024 :: real) = to_double (Alpha_H default_config * (15885 / 1024))
   \<and> 1 \<le> Alpha_H default_config \<and> 1 \<le> Alpha_V default_config
   \<and> to_double (15885 / 1024) = 15885 / 1024
   \<and> \<not> is_horizontal default_config (111195 / 1024) (15885 / 1024)
   \<and> \<not> is_vertical default_config (111195 / 1024) (15885 / 1024)
   \<and> segment_buffers default_config (111195 / 1024) (15885 / 1024)
       = (141915 / 2048, 15, 36365 / 2048)
   \<and> (832646221892437 / 8796093022208 :: real)
       = to_double (Alpha_H default_config * (7612765457302281 / 562949953421312))
   \<and> Alpha_H default_config * (7612765457302281 / 562949953421312)
       < 832646221892437 / 8796093022208
   \<and> to_double (7612765457302281 / 562949953421312) = 7612765457302281 / 562949953421312
   \<and> \<not> is_horizontal default_config
         (832646221892437 / 8796093022208) (7612765457302281 / 562949953421312)
   \<and> \<not> is_vertical default_config
         (832646221892437 / 8796093022208) (7612765457302281 / 562949953421312)
   \<and> segment_buffers default_config
         (832646221892437 / 8796093022208) (7612765457302281 / 562949953421312)
       = (1096529012558677 / 17592186044416, 15, 2358970565716065 / 140737488355328)
   \<and> (2 :: real) = to_double (Alpha_V default_config * 2)
   \<and> to_double 2 = 2
   \<and> \<not> is_horizontal default_config 2 2 \<and> \<not> is_vertical default_config 2 2
   \<and> segment_buffers default_config 2 2 = (16, 15, 11)"
proof -
  have t1: "(111195 / 1024 :: real) = to_double (Alpha_H default_config * (15885 / 1024))"
    by (simp add: default_config_def to_double_eval)
  have v1: "to_double (15885 / 1024) = 15885 / 1024"
    by (simp add: to_double_eval)
  have t2: "(832646221892437 / 8796093022208 :: real)
       = to_double (Alpha_H default_config * (7612765457302281 / 562949953421312))"
    by (simp add: default_config_def to_double_eval)
  have v2: "to_double (7612765457302281 / 562949953421312)
       = 7612765457302281 / 562949953421312"
    by (simp add: to_double_eval)
  have t3: "(2 :: real) = to_double (Alpha_V default_config * 2)"
    by (simp add: default_config_def to_double_numeral)
  have v3: "to_double 2 = 2" by (simp add: to_double_numeral)
  have c: "1 \<le> Alpha_H default_config" "1 \<le> Alpha_V default_config"
    by (simp_all add: default_config_def)
  have p: "(0::real) \<le> 15885 / 1024" "(0::real) \<le> 7612765457302281 / 562949953421312"
    "(0::real) \<le> 2"
    by simp_all
  have lt: "Alpha_H default_config * (7612765457302281 / 562949953421312)
       < (832646221892437 / 8796093022208 :: real)"
    by (simp add: default_config_def)
  have r1: "(to_double (to_double (111195 / 1024 / 2) + TSE_H default_config),
             TSE_H default_config,
             to_double (to_double (15885 / 1024 / 2) + TSE_V default_config))
       = (141915 / 2048, 15, 36365 / 2048)"
    by (simp add: default_config_def to_double_eval)
  have r2: "(to_double (to_double (832646221892437 / 8796093022208 / 2) + TSE_H default_config),
             TSE_H default_config,
             to_double (to_double (7612765457302281 / 562949953421312 / 2)
               + TSE_V default_config))
       = (1096529012558677 / 17592186044416, 15, 2358970565716065 / 140737488355328)"
    by (simp add: default_config_def to_double_eval)
  have r3: "(to_double (to_double (2 / 2) + TSE_H default_config), TSE_H default_config,
             to_double (to_double (2 / 2) + TSE_V default_config))
       = (16, 15, 11)"
    by (simp add: default_config_def to_double_numeral to_double_one)
  note th1 = classification_ties [of "111195 / 1024" default_config "15885 / 1024"]
  have a1: "\<not> is_horizontal default_config (111195 / 1024) (15885 / 1024)"
    and a2: "\<not> is_vertical default_config (111195 / 1024) (15885 / 1024)"
    using th1 t1 v1 c p by blast+
  have a3: "segment_buffers default_config (111195 / 1024) (15885 / 1024)
       = (141915 / 2048, 15, 36365 / 2048)"
    using th1 t1 a2 r1 by presburger
  note th2 = classification_ties [of "832646221892437 / 8796093022208" default_config
      "7612765457302281 / 562949953421312"]
  have b1: "\<not> is_horizontal default_config
         (832646221892437 / 8796093022208) (7612765457302281 / 562949953421312)"
    and b2: "\<not> is_vertical default_config
         (832646221892437 / 8796093022208) (7612765457302281 / 562949953421312)"
    using th2 t2 v2 c p by blast+
  have b3: "segment_buffers default_config
         (832646221892437 / 8796093022208) (7612765457302281 / 562949953421312)
       = (1096529012558677 / 17592186044416, 15, 2358970565716065 / 140737488355328)"
    using th2 t2 b2 r2 by presburger
  note th3 = classification_ties [of 2 default_config 2]
  have e1: "\<not> is_horizontal default_config 2 2"
    and e2: "\<not> is_vertical default_config 2 2"
    using th3 t3 v3 c p by blast+
  have e3: "segment_buffers default_config 2 2 = (16, 15, 11)"
    using th3 t3 e1 r3 by presburger
  from t1 v1 t2 v2 t3 v3 c lt a1 a2 a3 b1 b2 b3 e1 e2 e3 show ?thesis by blast
qed

text \<open>
  C4 as stated fails for \<open>Alpha_H = 0.5\<close>, \<open>Alpha_V = 1\<close>. On a segment of horizontal
  distance 1 and vertical distance 2 the tie \<open>1 = 0.5 * 2\<close> holds, the segment is
  vertical-dominant (\<open>2 > 1 * 1\<close>) and gets the vertical row, whose along-track is 15 and
  not \<open>1 / 2 + 15\<close>. On a segment of horizontal and vertical distance 2 the tie
  \<open>2 = 1 * 2\<close> of the vertical test holds, the segment is horizontal-dominant
  (\<open>2 > 0.5 * 2\<close>) and gets the horizontal row, whose half-height is 10 and not
  \<open>2 / 2 + 10\<close>.
\<close>

theorem classification_ties_not_mixed:
  "(1::real) = to_double (Alpha_H steep_config * 2)
   \<and> \<not> is_horizontal steep_config 1 2
   \<and> is_vertical steep_config 1 2
   \<and> segment_buffers steep_config 1 2 = (15, 15, 11)
   \<and> segment_buffers steep_config 1 2
       \<noteq> (to_double (to_double (1 / 2) + TSE_H steep_config), TSE_H steep_config,
          to_double (to_double (2 / 2) + TSE_V steep_config))
   \<and> (2::real) = to_double (Alpha_V steep_config * 2)
   \<and> \<not> is_vertical steep_config 2 2
   \<and> is_horizontal steep_config 2 2
   \<and> segment_buffers steep_config 2 2 = (16, 15, 10)
   \<and> segment_buffers steep_config 2 2
       \<noteq> (to_double (to_double (2 / 2) + TSE_H steep_config), TSE_H steep_config,
          to_double (to_double (2 / 2) + TSE_V steep_config))"
  by (simp add: segment_buffers_def is_horizontal_def is_vertical_def steep_config_def
        to_double_eval)

section \<open>Claim about the entry point\<close>

text \<open>
  Claim C9. \<open>generateCompleteUplan\<close> always reduces with the compression factor 20,
  whatever the configuration, the geodesy primitive, the file contents, the clock and the
  caller's arguments: it never throws; it returns the empty value exactly when no waypoint
  was loaded or \<open>reduceWaypoints\<close> with stride 20 leaves fewer than 2 waypoints; and the
  operation volumes of a plan it returns are the volumes of \<open>reduceWaypoints\<close> applied to
  the loaded waypoints with stride 20.
\<close>

theorem generateCompleteUplan_stride_20:
  "(case generateCompleteUplan config geod loadWaypointsFromCSV now_iso_string
           uplan_id uplan_name trajectory_csv_path start_timestamp cat utype mtom vMax of
      Inl e \<Rightarrow> False
    | Inr None \<Rightarrow>
        loadWaypointsFromCSV trajectory_csv_path = []
        \<or> length (reduceWaypoints (loadWaypointsFromCSV trajectory_csv_path) 20) < 2
    | Inr (Some u) \<Rightarrow>
        loadWaypointsFromCSV trajectory_csv_path \<noteq> []
        \<and> 2 \<le> length (reduceWaypoints (loadWaypointsFromCSV trajectory_csv_path) 20)
        \<and> generateVolumes config geod
             (reduceWaypoints (loadWaypointsFromCSV trajectory_csv_path) 20) start_timestamp
           = Inr (operationVolumes u))"
proof -
  define waypoints where "waypoints = loadWaypointsFromCSV trajectory_csv_path"
  define wp_reduced where "wp_reduced = reduceWaypoints waypoints 20"
  show ?thesis
  proof (cases "waypoints = [] \<or> length wp_reduced < 2")
    case True
    then show ?thesis
      by (auto simp: generateCompleteUplan_def Let_def waypoints_def wp_reduced_def)
  next
    case False
    then have ne: "wp_reduced \<noteq> []" by auto
    show ?thesis
      using False generateVolumes_Inr [OF ne, of config geod start_timestamp]
      by (simp add: generateCompleteUplan_def Let_def waypoints_def [symmetric]
            wp_reduced_def [symmetric])
  qed
qed

text \<open>
  C9 on a file of four waypoints: stride 20 keeps the second waypoint and appends the
  last, so the plan has one volume.
\<close>

theorem generateCompleteUplan_stride_20_witness:
  "\<exists>u. generateCompleteUplan default_config planar_geodesic one_file ''2025-09-01T09:00:00''
          21 ''Open A2 MR_0021_Scan.csv'' ''traj.csv'' 1000 ''OPENA2'' ''MULTIROTOR'' 1.1 20
        = Inr (Some u)
      \<and> reduceWaypoints (one_file ''traj.csv'') 20 = [wp_b, wp_d]
      \<and> operationVolumes u = [segment_volume default_config planar_geodesic 1000 wp_b wp_d 0]
      \<and> generateVolumes default_config planar_geodesic
           (reduceWaypoints (one_file ''traj.csv'') 20) 1000 = Inr (operationVolumes u)"
proof -
  have ne: "one_file ''traj.csv'' \<noteq> []" by (simp add: one_file_def)
  obtain u where u: "generateCompleteUplan default_config planar_geodesic one_file
          ''2025-09-01T09:00:00'' 21 ''Open A2 MR_0021_Scan.csv'' ''traj.csv'' 1000
          ''OPENA2'' ''MULTIROTOR'' 1.1 20 = Inr (Some u)"
      and ov: "operationVolumes u = [segment_volume default_config planar_geodesic 1000 wp_b wp_d 0]"
    using ne by (simp add: generateCompleteUplan_def Let_def reduce_one_file two_volumes)
  from generateCompleteUplan_stride_20 [where config = default_config
          and geod = planar_geodesic and loadWaypointsFromCSV = one_file
          and now_iso_string = "''2025-09-01T09:00:00''" and uplan_id = 21
          and uplan_name = "''Open A2 MR_0021_Scan.csv''"
          and trajectory_csv_path = "''traj.csv''" and start_timestamp = 1000
          and cat = "''OPENA2''" and utype = "''MULTIROTOR''" and mtom = "1.1" and vMax = 20] u
  have "generateVolumes default_config planar_geodesic
           (reduceWaypoints (one_file ''traj.csv'') 20) 1000 = Inr (operationVolumes u)"
    by simp
  with u ov reduce_one_file show ?thesis by blast
qed

end
